theory Spec2Isabelle
  imports Main "HOL-Library.AList"
begin

section \<open>Errors, dictionaries and strings\<close>

text \<open>
  Every exception the modelled code can raise is a value. The string carried by
  \<open>ArtifactNotLoggedError\<close> is the attribute or method name the source passes to the
  exception; the other strings are the messages (or the name Python complains about).
\<close>

datatype error =
    ArtifactNotLoggedError string
  | ArtifactFinalizedError
  | WaitTimeoutError
  | ValueError string
  | KeyError string
  | TypeError string
  | AttributeError string
  | AssertionError
  | UnboundLocalError string
  | FileNotFoundError string
  | IndexError string
  | TransportError string

text \<open>
  A Python \<open>dict\<close> keeps insertion order and overwrites in place: an association list
  read with \<open>map_of\<close> and written with \<open>AList.update\<close>.
\<close>

type_synonym 'v dict = "(string \<times> 'v) list"

definition dict_values :: "'v dict \<Rightarrow> 'v list" where
  "dict_values d = map snd d"

definition dict_keys :: "'v dict \<Rightarrow> string list" where
  "dict_keys d = map fst d"

definition startswith :: "string \<Rightarrow> string \<Rightarrow> bool" where
  "startswith s p = (take (length p) s = p)"

definition endswith :: "string \<Rightarrow> string \<Rightarrow> bool" where
  "endswith s p = (length p \<le> length s \<and> drop (length s - length p) s = p)"

text \<open>\<open>s.split(c)[0]\<close>: the part of \<open>s\<close> before the first \<open>c\<close>.\<close>

definition split_head :: "char \<Rightarrow> string \<Rightarrow> string" where
  "split_head c s = takeWhile (\<lambda>x. x \<noteq> c) s"

text \<open>\<open>s.split(c)\<close> for a one-character separator, and \<open>c.join(parts)\<close>.\<close>

fun split_on :: "char \<Rightarrow> string \<Rightarrow> string list" where
  "split_on c [] = [[]]"
| "split_on c (x # xs) =
     (if x = c then [] # split_on c xs
      else (case split_on c xs of [] \<Rightarrow> [[x]] | p # ps \<Rightarrow> (x # p) # ps))"

fun join_with :: "char \<Rightarrow> string list \<Rightarrow> string" where
  "join_with c [] = []"
| "join_with c [p] = p"
| "join_with c (p # q # ps) = p @ c # join_with c (q # ps)"

section \<open>The data model\<close>

datatype ArtifactState = PENDING | COMMITTED | DELETED

text \<open>
  \<open>ArtifactManifestEntry\<close>: \<open>size\<close> is \<open>Optional[int]\<close> in the source (the field is
  \<open>entry_size\<close> here, \<open>size\<close> being HOL's own), \<open>ref\<close> and \<open>local_path\<close> are optional
  strings.
\<close>

record ArtifactManifestEntry =
  path :: string
  digest :: string
  ref :: "string option"
  entry_size :: "int option"
  local_path :: "string option"

record ArtifactManifest =
  entries :: "ArtifactManifestEntry dict"

type_synonym metadata = "(string \<times> string) list"

text \<open>
  What \<open>MessageFuture.get(timeout)\<close> hands back to \<open>wait\<close>: nothing on a timeout, or
  the \<open>log_artifact_response\<close> with its error message and artifact id.
\<close>

record log_artifact_response =
  error_message :: string
  artifact_id :: string

datatype MessageFuture = MessageFuture "log_artifact_response option"

datatype RetryingClient = RetryingClient

text \<open>
  The attributes \<open>Artifact.__init__\<close> sets, under the source's names without the leading
  underscore (\<open>id'\<close> and \<open>type'\<close> avoid HOL's \<open>id\<close> and the keyword). The storage
  policy object is not a field: its operations are parameters of the functions that call
  them.
\<close>

record Artifact =
  client :: "RetryingClient option"
  tmp_dir :: "string option"
  added_objs :: "(nat \<times> ArtifactManifestEntry) list"
  added_local_paths :: "ArtifactManifestEntry dict"
  save_future :: "MessageFuture option"
  dependent_artifacts :: "string list"
  download_roots :: "string list"
  id' :: "string option"
  client_id :: string
  sequence_client_id :: string
  entity :: "string option"
  project :: "string option"
  name :: string
  version :: "string option"
  source_entity :: "string option"
  source_project :: "string option"
  source_name :: string
  source_version :: "string option"
  type' :: string
  description :: "string option"
  metadata :: metadata
  aliases :: "string list"
  saved_aliases :: "string list"
  distributed_id :: "string option"
  incremental :: bool
  use_as :: "string option"
  state :: ArtifactState
  manifest :: ArtifactManifest
  commit_hash :: "string option"
  file_count :: "int option"
  created_at :: "string option"
  updated_at :: "string option"
  final :: bool

section \<open>Construction\<close>

text \<open>
  \<open>re.match(r"^[a-zA-Z0-9_\-.]+$", name)\<close>: one or more characters of the class, up to
  the end of the string; Python's \<open>$\<close> also matches just before a final newline.
\<close>

definition name_char :: "char \<Rightarrow> bool" where
  "name_char c =
     (let n = (of_char c :: nat) in
        (97 \<le> n \<and> n \<le> 122) \<or> (65 \<le> n \<and> n \<le> 90) \<or> (48 \<le> n \<and> n \<le> 57)
        \<or> c = CHR ''_'' \<or> c = CHR ''-'' \<or> c = CHR ''.'')"

definition name_matches :: "string \<Rightarrow> bool" where
  "name_matches s =
     (let w = (if s \<noteq> [] \<and> last s = CHR 0x0A then butlast s else s)
      in w \<noteq> [] \<and> list_all name_char w)"

text \<open>
  \<open>_normalize_metadata\<close>: \<open>None\<close> becomes the empty dict; otherwise the value goes
  through \<open>json.loads(json.dumps(util.json_friendly_val(metadata)))\<close>, which is outside
  the modelled files and is the parameter \<open>json_roundtrip\<close> (it may raise). The
  \<open>isinstance\<close> check is the type of the argument.
\<close>

definition normalize_metadata ::
  "(metadata \<Rightarrow> error + metadata) \<Rightarrow> metadata option \<Rightarrow> error + metadata" where
  "normalize_metadata json_roundtrip m =
     (case m of None \<Rightarrow> Inr [] | Some d \<Rightarrow> json_roundtrip d)"

text \<open>
  \<open>Artifact.__init__\<close>. The two ids come from \<open>runid.generate_id(128)\<close> and are passed
  in. The warning for \<open>incremental\<close> and the registration in the process-wide cache
  leave the new object as it is.
\<close>

definition Artifact_init ::
  "(metadata \<Rightarrow> error + metadata) \<Rightarrow> string \<Rightarrow> string \<Rightarrow>
   string \<Rightarrow> string \<Rightarrow> string option \<Rightarrow> metadata option \<Rightarrow> bool \<Rightarrow> string option \<Rightarrow>
   error + Artifact" where
  "Artifact_init json_roundtrip cid scid nm ty descr meta incr useas =
     (if \<not> name_matches nm then
        Inl (ValueError (''Artifact name may only contain alphanumeric characters, dashes, underscores, and dots. Invalid name: '' @ nm))
      else if ty = ''job'' \<or> startswith ty ''wandb-'' then
        Inl (ValueError ''Artifact types 'job' and 'wandb-*' are reserved for internal use. Please use a different type.'')
      else
        (case normalize_metadata json_roundtrip meta of
           Inl e \<Rightarrow> Inl e
         | Inr md \<Rightarrow>
             Inr \<lparr> client = None,
                   tmp_dir = None,
                   added_objs = [],
                   added_local_paths = [],
                   save_future = None,
                   dependent_artifacts = [],
                   download_roots = [],
                   id' = None,
                   client_id = cid,
                   sequence_client_id = scid,
                   entity = None,
                   project = None,
                   name = nm,
                   version = None,
                   source_entity = None,
                   source_project = None,
                   source_name = nm,
                   source_version = None,
                   type' = ty,
                   description = descr,
                   metadata = md,
                   aliases = [''latest''],
                   saved_aliases = [],
                   distributed_id = None,
                   incremental = incr,
                   use_as = useas,
                   state = PENDING,
                   manifest = \<lparr> entries = [] \<rparr>,
                   commit_hash = None,
                   file_count = None,
                   created_at = None,
                   updated_at = None,
                   final = False \<rparr>))"

section \<open>Properties\<close>

definition Artifact_id :: "Artifact \<Rightarrow> error + string option" where
  "Artifact_id a =
     (if state a = PENDING then Inr None
      else (case id' a of None \<Rightarrow> Inl AssertionError | Some i \<Rightarrow> Inr (Some i)))"

definition Artifact_entity :: "Artifact \<Rightarrow> error + string" where
  "Artifact_entity a =
     (if state a = PENDING then Inl (ArtifactNotLoggedError ''entity'')
      else (case entity a of None \<Rightarrow> Inl AssertionError | Some v \<Rightarrow> Inr v))"

definition Artifact_project :: "Artifact \<Rightarrow> error + string" where
  "Artifact_project a =
     (if state a = PENDING then Inl (ArtifactNotLoggedError ''project'')
      else (case project a of None \<Rightarrow> Inl AssertionError | Some v \<Rightarrow> Inr v))"

definition Artifact_version :: "Artifact \<Rightarrow> error + string" where
  "Artifact_version a =
     (if state a = PENDING then Inl (ArtifactNotLoggedError ''version'')
      else (case version a of None \<Rightarrow> Inl AssertionError | Some v \<Rightarrow> Inr v))"

definition Artifact_source_entity :: "Artifact \<Rightarrow> error + string" where
  "Artifact_source_entity a =
     (if state a = PENDING then Inl (ArtifactNotLoggedError ''source_entity'')
      else (case source_entity a of None \<Rightarrow> Inl AssertionError | Some v \<Rightarrow> Inr v))"

definition Artifact_source_project :: "Artifact \<Rightarrow> error + string" where
  "Artifact_source_project a =
     (if state a = PENDING then Inl (ArtifactNotLoggedError ''source_project'')
      else (case source_project a of None \<Rightarrow> Inl AssertionError | Some v \<Rightarrow> Inr v))"

definition Artifact_source_version :: "Artifact \<Rightarrow> error + string option" where
  "Artifact_source_version a =
     (if state a = PENDING then Inr None
      else (case source_version a of None \<Rightarrow> Inl AssertionError | Some v \<Rightarrow> Inr (Some v)))"

definition Artifact_commit_hash :: "Artifact \<Rightarrow> error + string" where
  "Artifact_commit_hash a =
     (if state a = PENDING then Inl (ArtifactNotLoggedError ''commit_hash'')
      else (case commit_hash a of None \<Rightarrow> Inl AssertionError | Some v \<Rightarrow> Inr v))"

definition Artifact_file_count :: "Artifact \<Rightarrow> error + int" where
  "Artifact_file_count a =
     (if state a = PENDING then Inl (ArtifactNotLoggedError ''file_count'')
      else (case file_count a of None \<Rightarrow> Inl AssertionError | Some v \<Rightarrow> Inr v))"

definition Artifact_created_at :: "Artifact \<Rightarrow> error + string" where
  "Artifact_created_at a =
     (if state a = PENDING then Inl (ArtifactNotLoggedError ''created_at'')
      else (case created_at a of None \<Rightarrow> Inl AssertionError | Some v \<Rightarrow> Inr v))"

text \<open>
  \<open>updated_at\<close> raises with the attribute name \<open>created_at\<close>, asserts on \<open>_created_at\<close>
  and returns \<open>self._updated_at or self._created_at\<close>: the update time unless it is
  \<open>None\<close> or empty.
\<close>

definition Artifact_updated_at :: "Artifact \<Rightarrow> error + string" where
  "Artifact_updated_at a =
     (if state a = PENDING then Inl (ArtifactNotLoggedError ''created_at'')
      else (case created_at a of
              None \<Rightarrow> Inl AssertionError
            | Some c \<Rightarrow>
                (case updated_at a of
                   None \<Rightarrow> Inr c
                 | Some u \<Rightarrow> if u = [] then Inr c else Inr u)))"

text \<open>
  The \<open>size\<close> property: a loop over \<open>self._manifest.entries.values()\<close> with the
  accumulator \<open>total_size\<close>, adding \<open>entry.size\<close> when it is not \<open>None\<close>.
\<close>

fun size_loop :: "ArtifactManifestEntry list \<Rightarrow> int \<Rightarrow> int" where
  "size_loop [] total_size = total_size"
| "size_loop (e # es) total_size =
     (case entry_size e of
        None \<Rightarrow> size_loop es total_size
      | Some n \<Rightarrow> size_loop es (total_size + n))"

definition Artifact_size :: "Artifact \<Rightarrow> int" where
  "Artifact_size a = size_loop (dict_values (entries (manifest a))) 0"

text \<open>
  The setter of \<open>aliases\<close>: an alias that contains a slash or a colon is refused,
  otherwise the list replaces the one in memory.
\<close>

definition set_aliases :: "string list \<Rightarrow> Artifact \<Rightarrow> error + Artifact" where
  "set_aliases als a =
     (if list_ex (\<lambda>al. CHR ''/'' \<in> set al \<or> CHR '':'' \<in> set al) als
      then Inl (ValueError ''Aliases must not contain any of the following characters: /, :'')
      else Inr (a\<lparr> aliases := als \<rparr>))"

text \<open>The setters of \<open>description\<close>, \<open>metadata\<close> (which normalises) and \<open>distributed_id\<close>.\<close>

definition set_description :: "string option \<Rightarrow> Artifact \<Rightarrow> Artifact" where
  "set_description d a = a\<lparr> description := d \<rparr>"

definition set_metadata ::
  "(metadata \<Rightarrow> error + metadata) \<Rightarrow> metadata \<Rightarrow> Artifact \<Rightarrow> error + Artifact" where
  "set_metadata json_roundtrip m a =
     (case normalize_metadata json_roundtrip (Some m) of
        Inl e \<Rightarrow> Inl e
      | Inr md \<Rightarrow> Inr (a\<lparr> metadata := md \<rparr>))"

definition set_distributed_id :: "string option \<Rightarrow> Artifact \<Rightarrow> Artifact" where
  "set_distributed_id d a = a\<lparr> distributed_id := d \<rparr>"

text \<open>
  \<open>new_draft\<close>: a new artifact under the source name without its version, with the
  description and the metadata of this one. Its manifest is
  \<open>from_manifest_json(self.manifest.to_manifest_json())\<close>, outside the modelled files and
  the parameter \<open>manifest_roundtrip\<close>.
\<close>

definition new_draft ::
  "(metadata \<Rightarrow> error + metadata) \<Rightarrow> (ArtifactManifest \<Rightarrow> error + ArtifactManifest) \<Rightarrow>
   string \<Rightarrow> string \<Rightarrow> Artifact \<Rightarrow> error + Artifact" where
  "new_draft json_roundtrip manifest_roundtrip cid scid a =
     (if state a = PENDING then Inl (ArtifactNotLoggedError ''new_draft'')
      else
        (case Artifact_init json_roundtrip cid scid (split_head (CHR '':'') (source_name a))
                (type' a) None None False None of
           Inl e \<Rightarrow> Inl e
         | Inr b \<Rightarrow>
             (case manifest_roundtrip (manifest a) of
                Inl e \<Rightarrow> Inl e
              | Inr m \<Rightarrow>
                  Inr (b\<lparr> description := description a, metadata := metadata a, manifest := m \<rparr>))))"

definition is_draft :: "Artifact \<Rightarrow> bool" where
  "is_draft a = (state a = PENDING)"

definition finalize :: "Artifact \<Rightarrow> Artifact" where
  "finalize a = a\<lparr> final := True \<rparr>"

definition ensure_can_add :: "Artifact \<Rightarrow> error + unit" where
  "ensure_can_add a = (if final a then Inl ArtifactFinalizedError else Inr ())"

section \<open>Paths and the file system\<close>

text \<open>
  \<open>os.path\<close> on POSIX: \<open>basename\<close>, \<open>split\<close>, \<open>dirname\<close> and the two-argument
  \<open>join\<close>, as \<open>posixpath\<close> computes them.
\<close>

definition rstrip_slash :: "string \<Rightarrow> string" where
  "rstrip_slash s = rev (dropWhile (\<lambda>c. c = CHR ''/'') (rev s))"

definition lstrip_slash :: "string \<Rightarrow> string" where
  "lstrip_slash s = dropWhile (\<lambda>c. c = CHR ''/'') s"

definition basename :: "string \<Rightarrow> string" where
  "basename p = rev (takeWhile (\<lambda>c. c \<noteq> CHR ''/'') (rev p))"

definition path_split :: "string \<Rightarrow> string \<times> string" where
  "path_split p =
     (let tail = basename p;
          head = take (length p - length tail) p
      in (if head \<noteq> [] \<and> \<not> list_all (\<lambda>c. c = CHR ''/'') head then rstrip_slash head else head,
          tail))"

definition dirname :: "string \<Rightarrow> string" where
  "dirname p = fst (path_split p)"

definition path_join :: "string \<Rightarrow> string \<Rightarrow> string" where
  "path_join a b =
     (if startswith b ''/'' then b
      else if a = [] \<or> endswith a ''/'' then a @ b
      else a @ ''/'' @ b)"

text \<open>
  The file system: the regular files, each full path with its bytes, and the
  directories. \<open>tmp_counter\<close> numbers the temporary files and directories created so
  far. There are no symbolic links and no permissions.
\<close>

record world =
  files :: "string dict"
  dirs :: "string list"
  tmp_counter :: nat

definition isfile :: "world \<Rightarrow> string \<Rightarrow> bool" where
  "isfile w p = (map_of (files w) p \<noteq> None)"

definition isdir :: "world \<Rightarrow> string \<Rightarrow> bool" where
  "isdir w p = (p \<in> set (dirs w))"

definition path_exists :: "world \<Rightarrow> string \<Rightarrow> bool" where
  "path_exists w p = (isfile w p \<or> isdir w p)"

definition write_file :: "string \<Rightarrow> string \<Rightarrow> world \<Rightarrow> world" where
  "write_file p bytes w = w\<lparr> files := AList.update p bytes (files w) \<rparr>"

definition remove_file :: "string \<Rightarrow> world \<Rightarrow> world" where
  "remove_file p w = w\<lparr> files := AList.delete p (files w) \<rparr>"

text \<open>
  \<open>os.makedirs\<close> and \<open>filesystem.mkdir_exists_ok\<close>: the directory and every missing
  ancestor, the ancestors first; a directory that exists is left alone. A regular file
  in the way is not modelled.
\<close>

function makedirs :: "string \<Rightarrow> world \<Rightarrow> world" where
  "makedirs d w =
     (if d = [] \<or> d \<in> set (dirs w) then w
      else if length (dirname d) < length d
           then (let w1 = makedirs (dirname d) w in w1\<lparr> dirs := dirs w1 @ [d] \<rparr>)
           else w\<lparr> dirs := dirs w @ [d] \<rparr>)"
  by pat_completeness auto
termination
  by (relation "measure (\<lambda>(d, w). length d)") auto

declare makedirs.simps [simp del]

text \<open>
  The files \<open>os.walk(root)\<close> reaches, each as \<open>os.path.join(dirpath, file)\<close> paired with
  its \<open>os.path.relpath\<close> from \<open>root\<close>: the files whose path is \<open>root\<close>, a slash, and a
  non-empty rest. A root that is not a directory yields nothing, as \<open>os.walk\<close> does.
\<close>

definition relpath_under :: "string \<Rightarrow> string \<Rightarrow> string option" where
  "relpath_under root full =
     (let r = rstrip_slash root @ ''/'' in
        if startswith full r \<and> length r < length full then Some (drop (length r) full)
        else None)"

definition walk :: "world \<Rightarrow> string \<Rightarrow> (string \<times> string) list" where
  "walk w root =
     List.map_filter
       (\<lambda>full. case relpath_under root full of None \<Rightarrow> None | Some rel \<Rightarrow> Some (full, rel))
       (dict_keys (files w))"

section \<open>The metadata service\<close>

text \<open>
  The GraphQL operations the modelled methods send through \<open>self._client.execute\<close>,
  each with its variable values. The aliases of the add and delete mutations are built by
  iterating over a Python \<open>set\<close>, so they are a set here. \<open>self.id\<close> is an optional
  string.
\<close>

record ArtifactCollectionAliasInput =
  entityName :: "string option"
  projectName :: "string option"
  artifactCollectionName :: string
  alias' :: string

datatype request =
    ProbeServerAddAliasesInput
  | AddAliases "string option" "ArtifactCollectionAliasInput set"
  | DeleteAliases "string option" "ArtifactCollectionAliasInput set"
  | UpdateArtifact "string option" "string option" metadata "(string \<times> string) list option"
  | DeleteArtifact "string option" bool
  | CreateOrFetchArtifact string string string "string list" metadata "string option"
  | ArtifactByID string

text \<open>
  The answer to \<open>ArtifactByID\<close> as \<open>_populate_after_save\<close> reads it: the sequence's
  entity, project and name, the version index, the aliases (collection name and alias),
  the state as a string, the manifest's \<open>directUrl\<close>, and the commit hash, file count
  and timestamps; \<open>from_attrs\<close> also reads the type's name, the description and the
  metadata (already parsed; \<open>None\<close> for a missing or empty text).
\<close>

record attrs =
  seq_entityName :: string
  seq_projectName :: string
  seq_name :: string
  versionIndex :: nat
  attr_aliases :: "(string \<times> string) list"
  attr_state :: string
  directUrl :: string
  commitHash :: "string option"
  fileCount :: "int option"
  createdAt :: "string option"
  updatedAt :: "string option"
  artifactType :: string
  attr_description :: "string option"
  attr_metadata :: "metadata option"

record response =
  AddAliasesInputInfoType :: bool
  artifact :: "attrs option"

text \<open>What a method did to the world outside the process, in order.\<close>

datatype effect =
    Sent request
  | InitRun "string option"

type_synonym 'r remote = "(error + 'r) \<times> Artifact \<times> effect list"

section \<open>Code outside the modelled files\<close>

text \<open>
  Functions of other modules that the modelled methods call, as parameters:
  \<^item> \<open>LogicalPath\<close>: the path normalisation of \<open>wandb.sdk.lib.paths\<close>;
  \<^item> \<open>md5_b64\<close>: the base64 MD5 of a file's bytes (\<open>hashutil.md5_file_b64\<close> reads the
    file and applies it), \<open>b64_to_hex_id\<close> and \<open>hex_to_b64_id\<close>;
  \<^item> \<open>url_scheme\<close>: \<open>urlparse(s).scheme\<close>; \<open>host_from_path\<close> and \<open>uri_from_path\<close> of
    \<open>wandb.util\<close>;
  \<^item> \<open>staging_dir\<close>: \<open>get_staging_dir()\<close>; \<open>tmp_name d n\<close>: the name the operating
    system gives the \<open>n\<close>-th temporary file or directory made in \<open>d\<close>;
  \<^item> \<open>TMP_DIR\<close>: the name of the class attribute \<open>Artifact.TMP_DIR\<close>; \<open>py_id\<close>:
    \<open>str(id(self))\<close> from the object's client id;
  \<^item> \<open>ref_url\<close>: \<open>ArtifactManifestEntry.ref_url\<close>; \<open>store_reference\<close>: the storage
    policy's \<open>store_reference\<close>;
  \<^item> \<open>with_suffixes\<close>: \<open>wb_class.with_suffix\<close> for each class of
    \<open>WBValue.type_mapping().values()\<close>, in that order;
  \<^item> \<open>artifact_dir\<close>: \<open>env.get_artifact_dir()\<close>; \<open>is_windows\<close>:
    \<open>platform.system() == "Windows"\<close>; \<open>splitdrive\<close>: \<open>os.path.splitdrive\<close>;
    \<open>abspath\<close>: \<open>os.path.abspath\<close>;
  \<^item> \<open>fetch\<close>: the bytes \<open>ArtifactManifestEntry.download\<close> obtains for an entry;
  \<^item> \<open>execute\<close>: the answer of \<open>self._client.execute\<close> to a request, or the exception
    it raises; \<open>fetch_manifest\<close>: \<open>requests.get(url)\<close>, \<open>raise_for_status\<close> and
    \<open>ArtifactManifest.from_manifest_json\<close>; \<open>alias_is_version_index\<close> of
    \<open>wandb.util\<close>;
  \<^item> \<open>have_run\<close>: whether \<open>wandb.run\<close> is set; \<open>communicate_artifact\<close>: the
    future the run gets for the request that commits an artifact, or the exception
    raised; \<open>manifest_digest\<close>: \<open>ArtifactManifest.digest\<close>;
  \<^item> \<open>json_roundtrip\<close>: \<open>json.loads(json.dumps(util.json_friendly_val(m)))\<close>;
    \<open>new_ids\<close>: the two ids \<open>runid.generate_id(128)\<close> gives the object built for a
    server id.
\<close>

record ext =
  LogicalPath :: "string \<Rightarrow> string"
  md5_b64 :: "string \<Rightarrow> string"
  b64_to_hex_id :: "string \<Rightarrow> string"
  hex_to_b64_id :: "string \<Rightarrow> string"
  url_scheme :: "string \<Rightarrow> string"
  host_from_path :: "string \<Rightarrow> string"
  uri_from_path :: "string \<Rightarrow> string"
  staging_dir :: string
  tmp_name :: "string \<Rightarrow> nat \<Rightarrow> string"
  TMP_DIR :: string
  py_id :: "string \<Rightarrow> string"
  ref_url :: "ArtifactManifestEntry \<Rightarrow> error + string"
  store_reference ::
    "Artifact \<Rightarrow> string \<Rightarrow> string option \<Rightarrow> bool \<Rightarrow> nat option \<Rightarrow>
     error + ArtifactManifestEntry list"
  with_suffixes :: "(string \<Rightarrow> string) list"
  artifact_dir :: string
  is_windows :: bool
  splitdrive :: "string \<Rightarrow> string \<times> string"
  abspath :: "string \<Rightarrow> string"
  fetch :: "ArtifactManifestEntry \<Rightarrow> error + string"
  execute :: "request \<Rightarrow> error + response"
  fetch_manifest :: "string \<Rightarrow> error + ArtifactManifest"
  alias_is_version_index :: "string \<Rightarrow> bool"
  have_run :: bool
  communicate_artifact :: "request \<Rightarrow> error + MessageFuture"
  manifest_digest :: "ArtifactManifest \<Rightarrow> string"
  json_roundtrip :: "metadata \<Rightarrow> error + metadata"
  new_ids :: "string \<Rightarrow> string \<times> string"

text \<open>
  Modelled from the spec: \<open>hashutil.md5_file_b64\<close> is not among the modelled files. It
  is the content hash of the bytes at the path (section 4.3); a path that is not a file
  is the file-not-found condition of section 8.
\<close>

definition md5_file_b64 :: "ext \<Rightarrow> world \<Rightarrow> string \<Rightarrow> error + string" where
  "md5_file_b64 x w p =
     (case map_of (files w) p of
        None \<Rightarrow> Inl (FileNotFoundError p)
      | Some bytes \<Rightarrow> Inr (md5_b64 x bytes))"

section \<open>The manifest\<close>

text \<open>
  Modelled from the spec: \<open>ArtifactManifest.add_entry\<close> is not among the modelled files
  (\<open>artifact_manifest.py\<close>). Section 4.1: \<open>addEntry(entry)\<close> fails if an entry already
  exists at that path with a different digest, and succeeds silently as a no-op if it is
  identical; a new path is stored under its key (section 3: path-keyed, ordered by
  insertion).
\<close>

definition add_entry :: "ArtifactManifest \<Rightarrow> ArtifactManifestEntry \<Rightarrow> error + ArtifactManifest" where
  "add_entry m e =
     (case map_of (entries m) (path e) of
        Some old \<Rightarrow>
          if digest old \<noteq> digest e
          then Inl (ValueError (''Cannot add the same path twice: '' @ path e))
          else Inr m
      | None \<Rightarrow> Inr (m\<lparr> entries := AList.update (path e) e (entries m) \<rparr>))"

text \<open>
  Modelled from the spec: \<open>ArtifactManifest.get_entry_by_path\<close> is not among the
  modelled files. The manifest is a mapping from logical path to entry (section 2), and
  the callers test the result against \<open>None\<close>.
\<close>

definition get_entry_by_path :: "ArtifactManifest \<Rightarrow> string \<Rightarrow> ArtifactManifestEntry option" where
  "get_entry_by_path m p = map_of (entries m) p"

section \<open>Thread pools\<close>

text \<open>
  \<open>multiprocessing.dummy.Pool(threads).map(f, items)\<close>. The items are cut into chunks
  of \<open>len(items)\<close> divided by four times the number of threads, rounded up. A worker
  runs a chunk item by item and abandons it at the first exception; the other chunks
  still run, and \<open>map\<close> raises only after all of them have finished. The threads are
  modelled as running the chunks one after the other, in order, and the exception raised
  is that of the first chunk that failed.
\<close>

definition chunksize :: "nat \<Rightarrow> nat \<Rightarrow> nat" where
  "chunksize threads n =
     (if n mod (threads * 4) = 0 then n div (threads * 4) else n div (threads * 4) + 1)"

function chunked :: "nat \<Rightarrow> 'i list \<Rightarrow> 'i list list" where
  "chunked k xs = (if k = 0 \<or> xs = [] then [] else take k xs # chunked k (drop k xs))"
  by pat_completeness auto
termination
  by (relation "measure (\<lambda>(k, xs). length xs)") auto

declare chunked.simps [simp del]

fun run_chunk ::
  "('i \<Rightarrow> 's \<Rightarrow> (error + unit) \<times> 's) \<Rightarrow> 'i list \<Rightarrow> 's \<Rightarrow> (error + unit) \<times> 's" where
  "run_chunk f [] s = (Inr (), s)"
| "run_chunk f (i # rest) s =
     (case f i s of
        (Inl e, s1) \<Rightarrow> (Inl e, s1)
      | (Inr _, s1) \<Rightarrow> run_chunk f rest s1)"

fun run_chunks ::
  "('i \<Rightarrow> 's \<Rightarrow> (error + unit) \<times> 's) \<Rightarrow> 'i list list \<Rightarrow> 's \<Rightarrow> (error + unit) \<times> 's" where
  "run_chunks f [] s = (Inr (), s)"
| "run_chunks f (c # cs) s =
     (case run_chunk f c s of
        (Inl e, s1) \<Rightarrow> (Inl e, snd (run_chunks f cs s1))
      | (Inr _, s1) \<Rightarrow> run_chunks f cs s1)"

definition pool_map ::
  "nat \<Rightarrow> ('i \<Rightarrow> 's \<Rightarrow> (error + unit) \<times> 's) \<Rightarrow> 'i list \<Rightarrow> 's \<Rightarrow> (error + unit) \<times> 's" where
  "pool_map threads f items s =
     run_chunks f (chunked (chunksize threads (length items)) items) s"

section \<open>Adding entries\<close>

text \<open>
  A method that mutates the artifact or the file system returns its result or its error
  together with the artifact and the world as they are when it returns or raises: an
  exception does not undo what was done before it.
\<close>

type_synonym 'r outcome = "(error + 'r) \<times> Artifact \<times> world"

text \<open>
  \<open>_add_local_file\<close>: a temporary file in the staging directory (kept,
  \<open>delete=False\<close>), the copy of \<open>path\<close> into it, the entry with the given digest (or,
  when it is \<open>None\<close> or empty, the hash of the copy) and the size of the copy, then
  \<open>add_entry\<close> and the record in \<open>_added_local_paths\<close>. The constructor of
  \<open>ArtifactManifestEntry\<close> is taken to store its arguments as they are; the mode of the
  copy is not modelled.
\<close>

definition add_local_file ::
  "ext \<Rightarrow> string \<Rightarrow> string \<Rightarrow> string option \<Rightarrow> Artifact \<Rightarrow> world \<Rightarrow>
   ArtifactManifestEntry outcome" where
  "add_local_file x nm p dig a w =
     (let staging_path = tmp_name x (staging_dir x) (tmp_counter w);
          w1 = write_file staging_path [] (w\<lparr> tmp_counter := Suc (tmp_counter w) \<rparr>)
      in case map_of (files w1) p of
           None \<Rightarrow> (Inl (FileNotFoundError p), a, w1)
         | Some bytes \<Rightarrow>
             (let w2 = write_file staging_path bytes w1;
                  entry = \<lparr> path = nm,
                            digest = (case dig of
                                        None \<Rightarrow> md5_b64 x bytes
                                      | Some d \<Rightarrow> if d = [] then md5_b64 x bytes else d),
                            ref = None,
                            entry_size = Some (int (length bytes)),
                            local_path = Some staging_path \<rparr>
              in case add_entry (manifest a) entry of
                   Inl e \<Rightarrow> (Inl e, a, w2)
                 | Inr m \<Rightarrow>
                     (Inr entry,
                      a\<lparr> manifest := m,
                         added_local_paths := AList.update p entry (added_local_paths a) \<rparr>,
                      w2)))"

text \<open>
  \<open>add_file\<close>. With \<open>is_tmp\<close> the first dot-separated part of the file name is replaced
  by the first 20 characters of the digest's hex id.
\<close>

definition tmp_rename :: "ext \<Rightarrow> string \<Rightarrow> string \<Rightarrow> string" where
  "tmp_rename x nm dig =
     (let (file_path, file_name) = path_split nm;
          file_name_parts = split_on (CHR ''.'') file_name
      in path_join file_path
           (join_with (CHR ''.'') (take 20 (b64_to_hex_id x dig) # tl file_name_parts)))"

definition add_file ::
  "ext \<Rightarrow> string \<Rightarrow> string option \<Rightarrow> bool \<Rightarrow> Artifact \<Rightarrow> world \<Rightarrow>
   ArtifactManifestEntry outcome" where
  "add_file x local nm is_tmp a w =
     (case ensure_can_add a of
        Inl e \<Rightarrow> (Inl e, a, w)
      | Inr _ \<Rightarrow>
          if \<not> isfile w local then (Inl (ValueError (''Path is not a file: '' @ local)), a, w)
          else
            (let nm1 = LogicalPath x
                         (case nm of
                            None \<Rightarrow> basename local
                          | Some n \<Rightarrow> if n = [] then basename local else n)
             in case md5_file_b64 x w local of
                  Inl e \<Rightarrow> (Inl e, a, w)
                | Inr dig \<Rightarrow>
                    add_local_file x (if is_tmp then tmp_rename x nm1 dig else nm1)
                      local (Some dig) a w))"

text \<open>
  \<open>add_dir\<close>. The pairs of logical and physical path are collected from \<open>os.walk\<close>;
  a pool of 8 threads then maps \<open>add_manifest_file\<close>, which calls \<open>_add_local_file\<close>,
  over the pairs.
\<close>

definition add_manifest_file ::
  "ext \<Rightarrow> string \<times> string \<Rightarrow> Artifact \<times> world \<Rightarrow> (error + unit) \<times> Artifact \<times> world" where
  "add_manifest_file x log_phy_path s =
     (case add_local_file x (fst log_phy_path) (snd log_phy_path) None (fst s) (snd s) of
        (Inl e, a1, w1) \<Rightarrow> (Inl e, a1, w1)
      | (Inr _, a1, w1) \<Rightarrow> (Inr (), a1, w1))"

definition add_dir ::
  "ext \<Rightarrow> string \<Rightarrow> string option \<Rightarrow> Artifact \<Rightarrow> world \<Rightarrow> unit outcome" where
  "add_dir x local nm a w =
     (case ensure_can_add a of
        Inl e \<Rightarrow> (Inl e, a, w)
      | Inr _ \<Rightarrow>
          if \<not> isdir w local
          then (Inl (ValueError (''Path is not a directory: '' @ local)), a, w)
          else
            (let paths = map (\<lambda>(physical_path, rel).
                                (case nm of None \<Rightarrow> rel | Some n \<Rightarrow> path_join n rel,
                                 physical_path))
                             (walk w local)
             in pool_map 8 (add_manifest_file x) paths (a, w)))"

text \<open>
  \<open>add_reference\<close>. The argument is a manifest entry (whose \<open>ref_url()\<close> is taken) or a
  string. The entries the storage policy returns are added one by one; an exception of
  \<open>add_entry\<close> leaves the earlier ones in the manifest.
\<close>

fun add_entries ::
  "ArtifactManifest \<Rightarrow> ArtifactManifestEntry list \<Rightarrow> (error + unit) \<times> ArtifactManifest" where
  "add_entries m [] = (Inr (), m)"
| "add_entries m (e # es) =
     (case add_entry m e of
        Inl err \<Rightarrow> (Inl err, m)
      | Inr m1 \<Rightarrow> add_entries m1 es)"

definition add_reference ::
  "ext \<Rightarrow> ArtifactManifestEntry + string \<Rightarrow> string option \<Rightarrow> bool \<Rightarrow> nat option \<Rightarrow>
   Artifact \<Rightarrow> world \<Rightarrow> ArtifactManifestEntry list outcome" where
  "add_reference x uri nm checksum max_objects a w =
     (case ensure_can_add a of
        Inl e \<Rightarrow> (Inl e, a, w)
      | Inr _ \<Rightarrow>
          (let nm1 = map_option (LogicalPath x) nm in
           case (case uri of Inl entry \<Rightarrow> ref_url x entry | Inr s \<Rightarrow> Inr s) of
             Inl e \<Rightarrow> (Inl e, a, w)
           | Inr uri_str \<Rightarrow>
               if url_scheme x uri_str = []
               then (Inl (ValueError ''References must be URIs. To reference a local file, use file://''), a, w)
               else
                 (case store_reference x a uri_str nm1 checksum max_objects of
                    Inl e \<Rightarrow> (Inl e, a, w)
                  | Inr manifest_entries \<Rightarrow>
                      (case add_entries (manifest a) manifest_entries of
                         (Inl e, m) \<Rightarrow> (Inl e, a\<lparr> manifest := m \<rparr>, w)
                       | (Inr _, m) \<Rightarrow> (Inr manifest_entries, a\<lparr> manifest := m \<rparr>, w)))))"

text \<open>
  \<open>new_file\<close> is a context manager. \<open>new_file_open\<close> is the part before \<open>yield\<close>: it
  checks, makes the temporary directory on first use, refuses an existing path and opens
  the file, whose name it returns. The body of the \<open>with\<close> statement then writes
  \<open>bytes\<close>, and the part after \<open>yield\<close> calls \<open>add_file\<close>. The encoding error of the
  body is not modelled.
\<close>

definition new_file_open ::
  "ext \<Rightarrow> string \<Rightarrow> Artifact \<Rightarrow> world \<Rightarrow> string outcome" where
  "new_file_open x nm a w =
     (case ensure_can_add a of
        Inl e \<Rightarrow> (Inl e, a, w)
      | Inr _ \<Rightarrow>
          (let (d, a1, w1) =
                 (case tmp_dir a of
                    Some d \<Rightarrow> (d, a, w)
                  | None \<Rightarrow>
                      (let d = tmp_name x [] (tmp_counter w)
                       in (d, a\<lparr> tmp_dir := Some d \<rparr>,
                           makedirs d (w\<lparr> tmp_counter := Suc (tmp_counter w) \<rparr>))));
               p = path_join d (lstrip_slash nm)
           in if path_exists w1 p
              then (Inl (ValueError (''File with name '' @ nm @ '' already exists at '' @ p)), a1, w1)
              else (Inr p, a1, write_file p [] (makedirs (dirname p) w1))))"

definition new_file ::
  "ext \<Rightarrow> string \<Rightarrow> string \<Rightarrow> Artifact \<Rightarrow> world \<Rightarrow> string outcome" where
  "new_file x nm bytes a w =
     (case new_file_open x nm a w of
        (Inl e, a1, w1) \<Rightarrow> (Inl e, a1, w1)
      | (Inr p, a1, w1) \<Rightarrow>
          (case add_file x p (Some nm) False a1 (write_file p bytes w1) of
             (Inl e, a2, w2) \<Rightarrow> (Inl e, a2, w2)
           | (Inr _, a2, w2) \<Rightarrow> (Inr p, a2, w2)))"

text \<open>
  A \<open>WBValue\<close> as \<open>add\<close> sees it: \<open>id(obj)\<close>, whether it is an instance of one of the
  allowed types, \<open>obj._get_artifact_entry_ref_url()\<close>, its \<open>with_suffix\<close>, and
  \<open>obj.to_json(artifact)\<close> followed by \<open>json.dumps(val, sort_keys=True)\<close>, which may
  itself add files to the artifact. The method returns the entry; what it records in
  \<open>obj\<close> itself is not part of the artifact.
\<close>

record WBValue =
  obj_id :: nat
  allowed_type :: bool
  artifact_entry_ref_url :: "string option"
  with_suffix :: "string \<Rightarrow> string"
  to_json :: "Artifact \<Rightarrow> world \<Rightarrow> string outcome"

definition add ::
  "ext \<Rightarrow> WBValue \<Rightarrow> string \<Rightarrow> Artifact \<Rightarrow> world \<Rightarrow> ArtifactManifestEntry outcome" where
  "add x obj nm a w =
     (case ensure_can_add a of
        Inl e \<Rightarrow> (Inl e, a, w)
      | Inr _ \<Rightarrow>
          (let nm1 = LogicalPath x nm;
               is_tmp_name = startswith nm1 ''media/tables''
           in if \<not> allowed_type obj then (Inl (ValueError ''Found object of a type that is not allowed''), a, w)
              else
                (case map_of (added_objs a) (obj_id obj) of
                   Some entry \<Rightarrow> (Inr entry, a, w)
                 | None \<Rightarrow>
                     (case artifact_entry_ref_url obj of
                        Some ref_path \<Rightarrow>
                          (case add_reference x (Inr ref_path) (Some (with_suffix obj nm1)) True None a w of
                             (Inl e, a1, w1) \<Rightarrow> (Inl e, a1, w1)
                           | (Inr [], a1, w1) \<Rightarrow> (Inl (IndexError ''list index out of range''), a1, w1)
                           | (Inr (entry # _), a1, w1) \<Rightarrow> (Inr entry, a1, w1))
                      | None \<Rightarrow>
                          (case to_json obj a w of
                             (Inl e, a1, w1) \<Rightarrow> (Inl e, a1, w1)
                           | (Inr val, a1, w1) \<Rightarrow>
                               (let nm2 = with_suffix obj nm1 in
                                case get_entry_by_path (manifest a1) nm2 of
                                  Some entry \<Rightarrow> (Inr entry, a1, w1)
                                | None \<Rightarrow>
                                    (let written =
                                           (if is_tmp_name
                                            then (let file_path =
                                                        path_join (path_join (TMP_DIR x) (py_id x (client_id a1))) nm2
                                                  in (Inr file_path, a1,
                                                      write_file file_path val
                                                        (makedirs (fst (path_split file_path)) w1)))
                                            else new_file x nm2 val a1 w1)
                                     in case written of
                                          (Inl e, a2, w2) \<Rightarrow> (Inl e, a2, w2)
                                        | (Inr file_path, a2, w2) \<Rightarrow>
                                            (case add_file x file_path (Some nm2) is_tmp_name a2 w2 of
                                               (Inl e, a3, w3) \<Rightarrow> (Inl e, a3, w3)
                                             | (Inr entry, a3, w3) \<Rightarrow>
                                                 (Inr entry,
                                                  a3\<lparr> added_objs :=
                                                        AList.update (obj_id obj) entry (added_objs a3) \<rparr>,
                                                  if is_tmp_name \<and> path_exists w3 file_path
                                                  then remove_file file_path w3 else w3)))))))))"

section \<open>Reading entries\<close>

text \<open>
  \<open>_get_obj_entry\<close>: the first class of the type mapping whose suffixed name is a key of
  the manifest. The callers modelled here use the entry only.
\<close>

fun get_obj_entry_loop ::
  "(string \<Rightarrow> string) list \<Rightarrow> ArtifactManifest \<Rightarrow> string \<Rightarrow> ArtifactManifestEntry option" where
  "get_obj_entry_loop [] m nm = None"
| "get_obj_entry_loop (suffixed # rest) m nm =
     (case map_of (entries m) (suffixed nm) of
        Some entry \<Rightarrow> Some entry
      | None \<Rightarrow> get_obj_entry_loop rest m nm)"

definition get_obj_entry :: "ext \<Rightarrow> Artifact \<Rightarrow> string \<Rightarrow> ArtifactManifestEntry option" where
  "get_obj_entry x a nm = get_obj_entry_loop (with_suffixes x) (manifest a) nm"

text \<open>
  \<open>get_path\<close>. The assignment to the entry's \<open>_parent_artifact\<close> back pointer is not
  part of the manifest's content and is left out.
\<close>

definition get_path :: "ext \<Rightarrow> Artifact \<Rightarrow> string \<Rightarrow> error + ArtifactManifestEntry" where
  "get_path x a nm =
     (if state a = PENDING then Inl (ArtifactNotLoggedError ''get_path'')
      else
        (let nm1 = LogicalPath x nm in
         case (case map_of (entries (manifest a)) nm1 of
                 Some entry \<Rightarrow> Some entry
               | None \<Rightarrow> get_obj_entry x a nm1) of
           None \<Rightarrow> Inl (KeyError (''Path not contained in artifact: '' @ nm1))
         | Some entry \<Rightarrow> Inr entry))"

section \<open>Downloading, checking out, verifying\<close>

definition replace_colon :: "string \<Rightarrow> string" where
  "replace_colon s = map (\<lambda>c. if c = CHR '':'' then CHR ''-'' else c) s"

definition default_root :: "ext \<Rightarrow> Artifact \<Rightarrow> bool \<Rightarrow> string" where
  "default_root x a include_version =
     (let nm = (if include_version then name a else split_head (CHR '':'') (name a));
          root = path_join (artifact_dir x) nm
      in if is_windows x
         then (let (head, tail) = splitdrive x root in head @ replace_colon tail)
         else root)"

text \<open>\<open>root or self._default_root(...)\<close>: the default for \<open>None\<close> and for the empty string.\<close>

definition root_or_default :: "ext \<Rightarrow> Artifact \<Rightarrow> bool \<Rightarrow> string option \<Rightarrow> string" where
  "root_or_default x a include_version root =
     (case root of
        None \<Rightarrow> default_root x a include_version
      | Some r \<Rightarrow> if r = [] then default_root x a include_version else r)"

definition add_download_root :: "ext \<Rightarrow> string \<Rightarrow> Artifact \<Rightarrow> Artifact" where
  "add_download_root x dir_path a =
     (if abspath x dir_path \<in> set (download_roots a) then a
      else a\<lparr> download_roots := download_roots a @ [abspath x dir_path] \<rparr>)"

text \<open>
  \<open>sum(e.size for e in self._manifest.entries.values())\<close>: Python adds each size to the
  running total, starting from 0, and raises \<open>TypeError\<close> at the first \<open>None\<close>.
\<close>

fun sum_sizes :: "ArtifactManifestEntry list \<Rightarrow> int \<Rightarrow> error + int" where
  "sum_sizes [] acc = Inr acc"
| "sum_sizes (e # es) acc =
     (case entry_size e of
        None \<Rightarrow> Inl (TypeError ''unsupported operand type(s) for +: int and NoneType'')
      | Some n \<Rightarrow> sum_sizes es (acc + n))"

text \<open>
  Modelled from the spec: \<open>ArtifactManifestEntry.download\<close> is not among the modelled
  files. Section 4.5: download materializes the manifest entry under \<open>root\<close>; the bytes
  are those the content store or the reference yields for the entry (\<open>fetch\<close>), and a
  transport failure propagates (section 7).
\<close>

definition entry_download ::
  "ext \<Rightarrow> string \<Rightarrow> ArtifactManifestEntry \<Rightarrow> world \<Rightarrow> (error + string) \<times> world" where
  "entry_download x root entry w =
     (case fetch x entry of
        Inl e \<Rightarrow> (Inl e, w)
      | Inr bytes \<Rightarrow>
          (let p = path_join root (path entry)
           in (Inr p, write_file p bytes (makedirs (dirname p) w))))"

text \<open>
  \<open>_download_file\<close>: \<open>self.get_path(name).download(root)\<close>; the notification of the
  download logger is not modelled.
\<close>

definition download_file ::
  "ext \<Rightarrow> Artifact \<Rightarrow> string \<Rightarrow> string \<Rightarrow> world \<Rightarrow> (error + unit) \<times> world" where
  "download_file x a root nm w =
     (case get_path x a nm of
        Inl e \<Rightarrow> (Inl e, w)
      | Inr entry \<Rightarrow>
          (case entry_download x root entry w of
             (Inl e, w1) \<Rightarrow> (Inl e, w1)
           | (Inr _, w1) \<Rightarrow> (Inr (), w1)))"

text \<open>
  \<open>download\<close>. A pool of 32 threads maps \<open>_download_file\<close> over the keys of the
  manifest. The dependent artifacts are other objects; with \<open>recursive\<close> the same pool
  then maps their own \<open>download()\<close>, the parameter \<open>dep_download\<close>, over them. The
  progress messages are not modelled.
\<close>

definition download_dependent ::
  "(string \<Rightarrow> world \<Rightarrow> (error + string) \<times> world) \<Rightarrow> string \<Rightarrow> world \<Rightarrow>
   (error + unit) \<times> world" where
  "download_dependent dep_download d w =
     (case dep_download d w of
        (Inl e, w1) \<Rightarrow> (Inl e, w1)
      | (Inr _, w1) \<Rightarrow> (Inr (), w1))"

definition download ::
  "ext \<Rightarrow> (string \<Rightarrow> world \<Rightarrow> (error + string) \<times> world) \<Rightarrow> string option \<Rightarrow> bool \<Rightarrow>
   Artifact \<Rightarrow> world \<Rightarrow> string outcome" where
  "download x dep_download root recursive a w =
     (if state a = PENDING then (Inl (ArtifactNotLoggedError ''download''), a, w)
      else
        (let root1 = root_or_default x a True root;
             a1 = add_download_root x root1 a
         in case sum_sizes (dict_values (entries (manifest a1))) 0 of
              Inl e \<Rightarrow> (Inl e, a1, w)
            | Inr _ \<Rightarrow>
                (case pool_map 32 (download_file x a1 root1)
                        (dict_keys (entries (manifest a1))) w of
                   (Inl e, w1) \<Rightarrow> (Inl e, a1, w1)
                 | (Inr _, w1) \<Rightarrow>
                     if recursive
                     then (case pool_map 32 (download_dependent dep_download)
                                  (dependent_artifacts a1) w1 of
                             (Inl e, w2) \<Rightarrow> (Inl e, a1, w2)
                           | (Inr _, w2) \<Rightarrow> (Inr root1, a1, w2))
                     else (Inr root1, a1, w1))))"

text \<open>
  The first loop of \<open>checkout\<close>: every file under \<open>root\<close> for which \<open>get_path\<close> raises
  \<open>KeyError\<close> is removed; any other exception of \<open>get_path\<close> propagates.
\<close>

fun remove_untracked ::
  "ext \<Rightarrow> Artifact \<Rightarrow> (string \<times> string) list \<Rightarrow> world \<Rightarrow> (error + unit) \<times> world" where
  "remove_untracked x a [] w = (Inr (), w)"
| "remove_untracked x a ((full_path, artifact_path) # rest) w =
     (case get_path x a artifact_path of
        Inl (KeyError _) \<Rightarrow> remove_untracked x a rest (remove_file full_path w)
      | Inl e \<Rightarrow> (Inl e, w)
      | Inr _ \<Rightarrow> remove_untracked x a rest w)"

definition checkout ::
  "ext \<Rightarrow> (string \<Rightarrow> world \<Rightarrow> (error + string) \<times> world) \<Rightarrow> string option \<Rightarrow>
   Artifact \<Rightarrow> world \<Rightarrow> string outcome" where
  "checkout x dep_download root a w =
     (if state a = PENDING then (Inl (ArtifactNotLoggedError ''checkout''), a, w)
      else
        (let root1 = root_or_default x a False root
         in case remove_untracked x a (walk w root1) w of
              (Inl e, w1) \<Rightarrow> (Inl e, a, w1)
            | (Inr _, w1) \<Rightarrow> download x dep_download (Some root1) False a w1))"

text \<open>
  \<open>verify\<close>. The first loop raises at the first file under \<open>root\<close> that \<open>get_path\<close> does
  not know; the second hashes the file of every entry without \<open>ref\<close> and counts the
  others. The result is the count the warning prints, when it is printed.
\<close>

fun verify_files ::
  "ext \<Rightarrow> Artifact \<Rightarrow> (string \<times> string) list \<Rightarrow> error + unit" where
  "verify_files x a [] = Inr ()"
| "verify_files x a ((full_path, artifact_path) # rest) =
     (case get_path x a artifact_path of
        Inl (KeyError _) \<Rightarrow>
          Inl (ValueError (''Found file '' @ full_path @ '' which is not a member of artifact '' @ name a))
      | Inl e \<Rightarrow> Inl e
      | Inr _ \<Rightarrow> verify_files x a rest)"

fun verify_entries ::
  "ext \<Rightarrow> world \<Rightarrow> string \<Rightarrow> ArtifactManifestEntry list \<Rightarrow> nat \<Rightarrow> error + nat" where
  "verify_entries x w root [] ref_count = Inr ref_count"
| "verify_entries x w root (entry # rest) ref_count =
     (case ref entry of
        None \<Rightarrow>
          (case md5_file_b64 x w (path_join root (path entry)) of
             Inl e \<Rightarrow> Inl e
           | Inr d \<Rightarrow>
               if d \<noteq> digest entry
               then Inl (ValueError (''Digest mismatch for file: '' @ path entry))
               else verify_entries x w root rest ref_count)
      | Some _ \<Rightarrow> verify_entries x w root rest (Suc ref_count))"

definition verify :: "ext \<Rightarrow> string option \<Rightarrow> Artifact \<Rightarrow> world \<Rightarrow> error + nat option" where
  "verify x root a w =
     (if state a = PENDING then Inl (ArtifactNotLoggedError ''verify'')
      else
        (let root1 = root_or_default x a True root
         in case verify_files x a (walk w root1) of
              Inl e \<Rightarrow> Inl e
            | Inr _ \<Rightarrow>
                (case verify_entries x w root1 (dict_values (entries (manifest a))) 0 of
                   Inl e \<Rightarrow> Inl e
                 | Inr ref_count \<Rightarrow> Inr (if ref_count > 0 then Some ref_count else None))))"

section \<open>Saving, updating, deleting\<close>

text \<open>\<open>"{}".format(n)\<close> for a version index: the decimal digits.\<close>

function str_nat :: "nat \<Rightarrow> string" where
  "str_nat n =
     (if n < 10 then [''0123456789'' ! n]
      else str_nat (n div 10) @ [''0123456789'' ! (n mod 10)])"
  by pat_completeness auto
termination
  by (relation "measure id") auto

declare str_nat.simps [simp del]

text \<open>\<open>ArtifactState(attrs["state"])\<close>: the member with that value, or \<open>ValueError\<close>.\<close>

definition parse_state :: "string \<Rightarrow> error + ArtifactState" where
  "parse_state s =
     (if s = ''PENDING'' then Inr PENDING
      else if s = ''COMMITTED'' then Inr COMMITTED
      else if s = ''DELETED'' then Inr DELETED
      else Inl (ValueError (s @ '' is not a valid ArtifactState'')))"

text \<open>The elements of \<open>set(xs) - set(ys)\<close>, each once.\<close>

definition set_diff :: "string list \<Rightarrow> string list \<Rightarrow> string list" where
  "set_diff xs ys = filter (\<lambda>v. v \<notin> set ys) (remdups xs)"

definition alias_input :: "Artifact \<Rightarrow> string \<Rightarrow> ArtifactCollectionAliasInput" where
  "alias_input a al =
     \<lparr> entityName = entity a,
       projectName = project a,
       artifactCollectionName = split_head (CHR '':'') (name a),
       alias' = al \<rparr>"

text \<open>
  The first part of \<open>_update\<close>: the introspection query and, on a backend that knows
  \<open>AddAliasesInput\<close>, the two mutations with the differences and the copy into
  \<open>_saved_aliases\<close>; on an older backend, the whole alias list for the final mutation.
  The result is the local variable \<open>aliases\<close>.
\<close>

definition update_aliases ::
  "ext \<Rightarrow> Artifact \<Rightarrow> (string \<times> string) list option remote" where
  "update_aliases x a =
     (case execute x ProbeServerAddAliasesInput of
        Inl e \<Rightarrow> (Inl e, a, [Sent ProbeServerAddAliasesInput])
      | Inr r \<Rightarrow>
          if AddAliasesInputInfoType r then
            (let aliases_to_add = set_diff (aliases a) (saved_aliases a);
                 aliases_to_delete = set_diff (saved_aliases a) (aliases a);
                 added =
                   (if aliases_to_add \<noteq> [] then
                      (case Artifact_id a of
                         Inl e \<Rightarrow> (Inl e, [Sent ProbeServerAddAliasesInput])
                       | Inr i \<Rightarrow>
                           (let q = AddAliases i (set (map (alias_input a) aliases_to_add))
                            in (case execute x q of
                                  Inl e \<Rightarrow> (Inl e, [Sent ProbeServerAddAliasesInput, Sent q])
                                | Inr _ \<Rightarrow> (Inr (), [Sent ProbeServerAddAliasesInput, Sent q]))))
                    else (Inr (), [Sent ProbeServerAddAliasesInput]))
             in case added of
                  (Inl e, effs) \<Rightarrow> (Inl e, a, effs)
                | (Inr _, effs) \<Rightarrow>
                    (let deleted =
                           (if aliases_to_delete \<noteq> [] then
                              (case Artifact_id a of
                                 Inl e \<Rightarrow> (Inl e, effs)
                               | Inr i \<Rightarrow>
                                   (let q = DeleteAliases i (set (map (alias_input a) aliases_to_delete))
                                    in (case execute x q of
                                          Inl e \<Rightarrow> (Inl e, effs @ [Sent q])
                                        | Inr _ \<Rightarrow> (Inr (), effs @ [Sent q]))))
                            else (Inr (), effs))
                     in case deleted of
                          (Inl e, effs1) \<Rightarrow> (Inl e, a, effs1)
                        | (Inr _, effs1) \<Rightarrow>
                            (Inr None, a\<lparr> saved_aliases := aliases a \<rparr>, effs1)))
          else
            (Inr (Some (map (\<lambda>al. (split_head (CHR '':'') (name a), al)) (aliases a))),
             a, [Sent ProbeServerAddAliasesInput]))"

text \<open>
  \<open>_update\<close>: the part above, then the \<open>updateArtifact\<close> mutation with the id, the
  description, the metadata and the variable \<open>aliases\<close>. A client that was never set
  is \<open>None\<close>, and calling \<open>execute\<close> on it raises.
\<close>

definition Artifact_update :: "ext \<Rightarrow> Artifact \<Rightarrow> unit remote" where
  "Artifact_update x a =
     (case client a of
        None \<Rightarrow> (Inl (AttributeError ''execute''), a, [])
      | Some _ \<Rightarrow>
          (case update_aliases x a of
             (Inl e, a1, effs) \<Rightarrow> (Inl e, a1, effs)
           | (Inr als, a1, effs) \<Rightarrow>
               (case Artifact_id a1 of
                  Inl e \<Rightarrow> (Inl e, a1, effs)
                | Inr i \<Rightarrow>
                    (let q = UpdateArtifact i (description a1) (metadata a1) als
                     in case execute x q of
                          Inl e \<Rightarrow> (Inl e, a1, effs @ [Sent q])
                        | Inr _ \<Rightarrow> (Inr (), a1, effs @ [Sent q])))))"

definition set_save_future :: "MessageFuture \<Rightarrow> RetryingClient \<Rightarrow> Artifact \<Rightarrow> Artifact" where
  "set_save_future fut c a = a\<lparr> save_future := Some fut, client := Some c \<rparr>"

text \<open>
  Modelled from the spec: \<open>run.log_artifact\<close> is not among the modelled files. The
  commit submits \<open>createOrFetchArtifact(manifestDigest, collection, type, aliases,
  metadata, description)\<close> to the metadata service (section 6), with the digest, the
  name, the type, the alias set, the metadata and the description of the artifact
  (section 3). The manifest becomes immutable before the commit (section 4.6; the
  docstring of \<open>finalize\<close>: this happens automatically when calling \<open>log_artifact\<close>), and
  the completion is asynchronous and awaited later (section 5): the artifact is handed the
  future and the client through \<open>_set_save_future\<close>, the method that exists for this.
\<close>

definition log_artifact :: "ext \<Rightarrow> Artifact \<Rightarrow> unit remote" where
  "log_artifact x a =
     (let a1 = finalize a;
          q = CreateOrFetchArtifact (manifest_digest x (manifest a1)) (name a1) (type' a1)
                (aliases a1) (metadata a1) (description a1)
      in case communicate_artifact x q of
           Inl e \<Rightarrow> (Inl e, a1, [Sent q])
         | Inr fut \<Rightarrow> (Inr (), set_save_future fut RetryingClient a1, [Sent q]))"

text \<open>
  \<open>save\<close>: a logged artifact is updated; a draft is handed to \<open>log_artifact\<close> of the
  current run, or of a run started for it. The telemetry flag for \<open>incremental\<close> and the
  settings of the new run are not modelled.
\<close>

definition save :: "ext \<Rightarrow> string option \<Rightarrow> Artifact \<Rightarrow> unit remote" where
  "save x proj a =
     (if state a \<noteq> PENDING then Artifact_update x a
      else
        (case log_artifact x a of
           (r, a1, effs) \<Rightarrow> (r, a1, (if have_run x then [] else [InitRun proj]) @ effs)))"

definition own_aliases :: "ext \<Rightarrow> string \<Rightarrow> (string \<times> string) list \<Rightarrow> string list" where
  "own_aliases x nm als =
     map snd (filter (\<lambda>(coll, al). coll = split_head (CHR '':'') nm \<and> \<not> alias_is_version_index x al) als)"

definition version_aliases :: "ext \<Rightarrow> string \<Rightarrow> (string \<times> string) list \<Rightarrow> string list" where
  "version_aliases x nm als =
     map snd (filter (\<lambda>(coll, al). coll = split_head (CHR '':'') nm \<and> alias_is_version_index x al) als)"

text \<open>
  \<open>_populate_after_save\<close>. The attributes are assigned in the source's order, so an
  exception of the state's parsing or of the manifest's download leaves the earlier
  assignments in place. \<open>_final\<close> is not assigned.
\<close>

definition populate_after_save :: "ext \<Rightarrow> string \<Rightarrow> Artifact \<Rightarrow> unit remote" where
  "populate_after_save x aid a =
     (case client a of
        None \<Rightarrow> (Inl (AttributeError ''execute''), a, [])
      | Some _ \<Rightarrow>
          (case execute x (ArtifactByID aid) of
             Inl e \<Rightarrow> (Inl e, a, [Sent (ArtifactByID aid)])
           | Inr r \<Rightarrow>
               (case artifact r of
                  None \<Rightarrow>
                    (Inl (ValueError (''Unable to fetch artifact with id '' @ aid)), a,
                     [Sent (ArtifactByID aid)])
                | Some at \<Rightarrow>
                    (let nm = seq_name at @ '':v'' @ str_nat (versionIndex at);
                         v = ''v'' @ str_nat (versionIndex at);
                         a1 = a\<lparr> id' := Some aid,
                                 entity := Some (seq_entityName at),
                                 project := Some (seq_projectName at),
                                 name := nm,
                                 version := Some v,
                                 source_entity := Some (seq_entityName at),
                                 source_project := Some (seq_projectName at),
                                 source_name := nm,
                                 source_version := Some v,
                                 aliases := own_aliases x nm (attr_aliases at) \<rparr>
                     in case parse_state (attr_state at) of
                          Inl e \<Rightarrow> (Inl e, a1, [Sent (ArtifactByID aid)])
                        | Inr st \<Rightarrow>
                            (case fetch_manifest x (directUrl at) of
                               Inl e \<Rightarrow> (Inl e, a1\<lparr> state := st \<rparr>, [Sent (ArtifactByID aid)])
                             | Inr m \<Rightarrow>
                                 (Inr (),
                                  a1\<lparr> state := st,
                                      manifest := m,
                                      commit_hash := commitHash at,
                                      file_count := fileCount at,
                                      created_at := createdAt at,
                                      updated_at := updatedAt at \<rparr>,
                                  [Sent (ArtifactByID aid)]))))))"

text \<open>
  \<open>wait\<close>. The future carries what \<open>get(timeout)\<close> returns. The method returns
  \<open>self\<close>, the artifact of the outcome.
\<close>

definition wait :: "ext \<Rightarrow> Artifact \<Rightarrow> unit remote" where
  "wait x a =
     (if state a = PENDING then
        (case save_future a of
           None \<Rightarrow> (Inl (ArtifactNotLoggedError ''wait''), a, [])
         | Some (MessageFuture result) \<Rightarrow>
             (case result of
                None \<Rightarrow> (Inl WaitTimeoutError, a, [])
              | Some resp \<Rightarrow>
                  if error_message resp \<noteq> [] then (Inl (ValueError (error_message resp)), a, [])
                  else populate_after_save x (artifact_id resp) a))
      else (Inr (), a, []))"

text \<open>
  \<open>delete\<close>. The mutation is sent with the id and the flag; no attribute of the
  artifact is assigned.
\<close>

definition Artifact_delete :: "ext \<Rightarrow> bool \<Rightarrow> Artifact \<Rightarrow> unit remote" where
  "Artifact_delete x delete_aliases a =
     (if state a = PENDING then (Inl (ArtifactNotLoggedError ''delete''), a, [])
      else
        (case client a of
           None \<Rightarrow> (Inl (AttributeError ''execute''), a, [])
         | Some _ \<Rightarrow>
             (case Artifact_id a of
                Inl e \<Rightarrow> (Inl e, a, [])
              | Inr i \<Rightarrow>
                  (let q = DeleteArtifact i delete_aliases
                   in case execute x q of
                        Inl e \<Rightarrow> (Inl e, a, [Sent q])
                      | Inr _ \<Rightarrow> (Inr (), a, [Sent q])))))"

section \<open>Loading an artifact and storing a cross-artifact reference\<close>

text \<open>
  Modelled from the spec: \<open>ArtifactManifestEntry._is_artifact_reference\<close> is not among
  the modelled files. A reference entry points at cross-artifact content when its \<open>ref\<close>
  is a URI of the internal cross-artifact scheme (section 6), which is the scheme
  \<open>WBArtifactHandler\<close> handles.
\<close>

definition wb_scheme :: string where
  "wb_scheme = ''wandb-artifact''"

definition is_artifact_reference :: "ext \<Rightarrow> ArtifactManifestEntry \<Rightarrow> bool" where
  "is_artifact_reference x e =
     (case ref e of None \<Rightarrow> False | Some r \<Rightarrow> url_scheme x r = wb_scheme)"

text \<open>
  \<open>_load_manifest(self, url)\<close>. The parameter \<open>url\<close> is required: a call that passes
  none raises \<open>TypeError\<close> before the body runs, which is the case \<open>None\<close> of the
  argument here. The body replaces the manifest, then loops over the entries; at the
  first cross-artifact reference it evaluates \<open>self.client\<close>, an attribute the class
  does not define (only \<open>_client\<close> is assigned), which raises \<open>AttributeError\<close>.
\<close>

definition load_manifest :: "ext \<Rightarrow> string option \<Rightarrow> Artifact \<Rightarrow> error + Artifact" where
  "load_manifest x url a =
     (case url of
        None \<Rightarrow> Inl (TypeError ''_load_manifest() missing 1 required positional argument: url'')
      | Some u \<Rightarrow>
          (case fetch_manifest x u of
             Inl e \<Rightarrow> Inl e
           | Inr m \<Rightarrow>
               if list_ex (is_artifact_reference x) (dict_values (entries m))
               then Inl (AttributeError ''client'')
               else Inr (a\<lparr> manifest := m \<rparr>)))"

text \<open>
  \<open>from_attrs\<close>. The metadata of the answer is normalised by the class method and again
  by the property's setter. The store into the process-wide cache is not modelled.
\<close>

definition from_attrs ::
  "ext \<Rightarrow> string \<Rightarrow> string \<Rightarrow> string \<Rightarrow> string \<Rightarrow> string \<Rightarrow> string \<Rightarrow> attrs \<Rightarrow> error + Artifact" where
  "from_attrs x cid scid aid ent proj nm at =
     (case Artifact_init (json_roundtrip x) cid scid (split_head (CHR '':'') nm) (artifactType at)
             None None False None of
        Inl e \<Rightarrow> Inl e
      | Inr a0 \<Rightarrow>
          (let vas = version_aliases x nm (attr_aliases at) in
           if length vas \<noteq> 1 then Inl AssertionError
           else
             (case normalize_metadata (json_roundtrip x)
                     (Some (case attr_metadata at of None \<Rightarrow> [] | Some md \<Rightarrow> md)) of
                Inl e \<Rightarrow> Inl e
              | Inr md1 \<Rightarrow>
                  (case normalize_metadata (json_roundtrip x) (Some md1) of
                     Inl e \<Rightarrow> Inl e
                   | Inr md2 \<Rightarrow>
                       (case parse_state (attr_state at) of
                          Inl e \<Rightarrow> Inl e
                        | Inr st \<Rightarrow>
                            (case load_manifest x (Some (directUrl at))
                                    (a0\<lparr> client := Some RetryingClient,
                                         id' := Some aid,
                                         entity := Some ent,
                                         project := Some proj,
                                         name := nm,
                                         version := Some (hd vas),
                                         source_entity := Some (seq_entityName at),
                                         source_project := Some (seq_projectName at),
                                         source_name := seq_name at @ '':v'' @ str_nat (versionIndex at),
                                         source_version := Some (''v'' @ str_nat (versionIndex at)),
                                         description := attr_description at,
                                         metadata := md2,
                                         aliases := own_aliases x nm (attr_aliases at),
                                         saved_aliases := own_aliases x nm (attr_aliases at),
                                         state := st \<rparr>) of
                               Inl e \<Rightarrow> Inl e
                             | Inr a1 \<Rightarrow>
                                 Inr (a1\<lparr> commit_hash := commitHash at,
                                          file_count := fileCount at,
                                          created_at := createdAt at,
                                          updated_at := updatedAt at,
                                          final := True \<rparr>)))))))"

text \<open>
  \<open>from_id\<close>: the cached object for the id, or the one built from the service's answer
  (\<open>None\<close> when the service knows no such artifact). \<open>cache\<close> is the index of committed
  objects by server id.
\<close>

definition from_id :: "ext \<Rightarrow> Artifact dict \<Rightarrow> string \<Rightarrow> error + Artifact option" where
  "from_id x cache aid =
     (case map_of cache aid of
        Some a \<Rightarrow> Inr (Some a)
      | None \<Rightarrow>
          (case execute x (ArtifactByID aid) of
             Inl e \<Rightarrow> Inl e
           | Inr r \<Rightarrow>
               (case artifact r of
                  None \<Rightarrow> Inr None
                | Some at \<Rightarrow>
                    (case from_attrs x (fst (new_ids x aid)) (snd (new_ids x aid)) aid
                            (seq_entityName at) (seq_projectName at)
                            (seq_name at @ '':v'' @ str_nat (versionIndex at)) at of
                       Inl e \<Rightarrow> Inl e
                     | Inr a \<Rightarrow> Inr (Some a)))))"

text \<open>
  The \<open>while\<close> loop of \<open>WBArtifactHandler.store_path\<close>. Its state is \<open>path\<close> and the
  three variables the code after the loop reads: \<open>target_artifact\<close>,
  \<open>artifact_file_path\<close> and \<open>entry\<close>, unbound until the body has run once. A chain of
  references need not end, so the loop is a partial function: \<open>None\<close> is a loop that
  does not return.
\<close>

type_synonym loop_vars = "(Artifact \<times> string \<times> ArtifactManifestEntry) option"

partial_function (option) resolve_loop ::
  "ext \<Rightarrow> Artifact dict \<Rightarrow> string option \<Rightarrow> loop_vars \<Rightarrow> (error + loop_vars) option" where
  "resolve_loop x cache p vars =
     (case p of
        None \<Rightarrow> Some (Inr vars)
      | Some s \<Rightarrow>
          if url_scheme x s \<noteq> wb_scheme then Some (Inr vars)
          else
            (case from_id x cache (hex_to_b64_id x (host_from_path x s)) of
               Inl e \<Rightarrow> Some (Inl e)
             | Inr None \<Rightarrow> Some (Inl (AttributeError ''_load_manifest''))
             | Inr (Some target_artifact) \<Rightarrow>
                 (case load_manifest x None target_artifact of
                    Inl e \<Rightarrow> Some (Inl e)
                  | Inr t \<Rightarrow>
                      (case get_entry_by_path (manifest t) (uri_from_path x s) of
                         None \<Rightarrow> Some (Inl (AttributeError ''ref''))
                       | Some entry \<Rightarrow>
                           resolve_loop x cache (ref entry) (Some (t, uri_from_path x s, entry))))))"

text \<open>
  \<open>store_path\<close>: the loop, then the reference URI from the target's id and the file
  path, and the single new entry with size 0 and the digest of the last entry read.
\<close>

definition store_path ::
  "ext \<Rightarrow> Artifact dict \<Rightarrow> Artifact \<Rightarrow> string \<Rightarrow> string option \<Rightarrow> bool \<Rightarrow> nat option \<Rightarrow>
   (error + ArtifactManifestEntry list) option" where
  "store_path x cache art p nm checksum max_objects =
     (case resolve_loop x cache (Some p) None of
        None \<Rightarrow> None
      | Some (Inl e) \<Rightarrow> Some (Inl e)
      | Some (Inr None) \<Rightarrow> Some (Inl (UnboundLocalError ''target_artifact''))
      | Some (Inr (Some (target_artifact, artifact_file_path, entry))) \<Rightarrow>
          (case Artifact_id target_artifact of
             Inl e \<Rightarrow> Some (Inl e)
           | Inr None \<Rightarrow> Some (Inl (TypeError ''b64_to_hex_id of None''))
           | Inr (Some i) \<Rightarrow>
               (let r = wb_scheme @ ''://'' @ b64_to_hex_id x i @ ''/'' @ artifact_file_path
                in Some (Inr [\<lparr> path = (case nm of
                                            None \<Rightarrow> basename r
                                          | Some n \<Rightarrow> if n = [] then basename r else n),
                                  digest = digest entry,
                                  ref = Some r,
                                  entry_size = Some 0,
                                  local_path = None \<rparr>]))))"

section \<open>The artifacts a program can hold\<close>

text \<open>
  The artifacts reachable through the class: those the constructor, \<open>from_attrs\<close> (and
  with it \<open>from_id\<close> and \<open>from_name\<close>) and \<open>new_draft\<close> return, and what the setters,
  \<open>finalize\<close>, the methods that add entries, \<open>save\<close>, \<open>wait\<close>, \<open>download\<close>,
  \<open>checkout\<close> and \<open>delete\<close> make of such an artifact, whether they return or raise.
  \<open>add\<close> runs \<open>obj.to_json\<close> on the artifact, code of the value's class: what it leaves
  must itself be such an artifact. \<open>_set_save_future\<close> and \<open>_populate_after_save\<close> are
  reached through \<open>save\<close> and \<open>wait\<close> only.
\<close>

inductive produced :: "Artifact \<Rightarrow> bool" where
  by_init:
    "Artifact_init jr cid scid nm ty descr meta incr useas = Inr a \<Longrightarrow> produced a"
| by_from_attrs:
    "from_attrs x cid scid aid ent proj nm at = Inr a \<Longrightarrow> produced a"
| by_new_draft:
    "produced a \<Longrightarrow> new_draft jr mr cid scid a = Inr b \<Longrightarrow> produced b"
| by_finalize:
    "produced a \<Longrightarrow> produced (finalize a)"
| by_set_aliases:
    "produced a \<Longrightarrow> set_aliases als a = Inr b \<Longrightarrow> produced b"
| by_set_description:
    "produced a \<Longrightarrow> produced (set_description d a)"
| by_set_metadata:
    "produced a \<Longrightarrow> set_metadata jr m a = Inr b \<Longrightarrow> produced b"
| by_set_distributed_id:
    "produced a \<Longrightarrow> produced (set_distributed_id d a)"
| by_add_file:
    "produced a \<Longrightarrow> add_file x p nmo is_tmp a w = (r, b, w') \<Longrightarrow> produced b"
| by_add_dir:
    "produced a \<Longrightarrow> add_dir x p nmo a w = (ru, b, w') \<Longrightarrow> produced b"
| by_add_reference:
    "produced a \<Longrightarrow> add_reference x uri nmo checksum max_objects a w = (rs, b, w') \<Longrightarrow> produced b"
| by_new_file:
    "produced a \<Longrightarrow> new_file x nm bytes a w = (rp, b, w') \<Longrightarrow> produced b"
| by_add:
    "produced a \<Longrightarrow> produced (fst (snd (to_json obj a w))) \<Longrightarrow>
     add x obj nm a w = (r, b, w') \<Longrightarrow> produced b"
| by_save:
    "produced a \<Longrightarrow> save x proj a = (ru, b, effs) \<Longrightarrow> produced b"
| by_wait:
    "produced a \<Longrightarrow> wait x a = (ru, b, effs) \<Longrightarrow> produced b"
| by_download:
    "produced a \<Longrightarrow> download x dep_download root recursive a w = (rp, b, w') \<Longrightarrow> produced b"
| by_checkout:
    "produced a \<Longrightarrow> checkout x dep_download root a w = (rp, b, w') \<Longrightarrow> produced b"
| by_delete:
    "produced a \<Longrightarrow> Artifact_delete x delete_aliases a = (ru, b, effs) \<Longrightarrow> produced b"


section \<open>Sequences of calls and example objects\<close>

text \<open>
  \<open>add_file\<close> called once for each path of a list, every time with the same \<open>name\<close> and
  \<open>is_tmp\<close>, stopping at the first exception.
\<close>

fun add_file_each ::
  "ext \<Rightarrow> string list \<Rightarrow> string option \<Rightarrow> bool \<Rightarrow> Artifact \<Rightarrow> world \<Rightarrow> unit outcome" where
  "add_file_each x [] nm is_tmp a w = (Inr (), a, w)"
| "add_file_each x (p # ps) nm is_tmp a w =
     (case add_file x p nm is_tmp a w of
        (Inl e, a1, w1) \<Rightarrow> (Inl e, a1, w1)
      | (Inr _, a1, w1) \<Rightarrow> add_file_each x ps nm is_tmp a1 w1)"

text \<open>A path has a corresponding manifest entry when \<open>get_path\<close> returns one for it.\<close>

definition tracked :: "ext \<Rightarrow> Artifact \<Rightarrow> string \<Rightarrow> bool" where
  "tracked x a rel = (case get_path x a rel of Inl _ \<Rightarrow> False | Inr _ \<Rightarrow> True)"

text \<open>
  A small environment for concrete runs: URIs of the form \<open>scheme://host/path\<close>, ids
  that are their own hex form, a hash that prefixes the bytes, a backend that knows
  \<open>AddAliasesInput\<close> and answers every query with \<open>ex_attrs\<close>.
\<close>

definition ex_scheme :: "string \<Rightarrow> string" where
  "ex_scheme s =
     (let h = takeWhile (\<lambda>c. c \<noteq> CHR '':'') s
      in if startswith (drop (length h) s) ''://'' then h else [])"

definition ex_host :: "string \<Rightarrow> string" where
  "ex_host s = takeWhile (\<lambda>c. c \<noteq> CHR ''/'') (drop (length (ex_scheme s) + 3) s)"

definition ex_uri :: "string \<Rightarrow> string" where
  "ex_uri s = drop 1 (dropWhile (\<lambda>c. c \<noteq> CHR ''/'') (drop (length (ex_scheme s) + 3) s))"

definition ex_version_index :: "string \<Rightarrow> bool" where
  "ex_version_index s =
     (2 \<le> length s \<and> hd s = CHR ''v'' \<and>
      list_all (\<lambda>c. 48 \<le> (of_char c :: nat) \<and> (of_char c :: nat) \<le> 57) (tl s))"

definition ex_attrs :: attrs where
  "ex_attrs =
     \<lparr> seq_entityName = ''team'',
       seq_projectName = ''proj'',
       seq_name = ''mnist'',
       versionIndex = 0,
       attr_aliases = [(''mnist'', ''latest''), (''mnist'', ''v0'')],
       attr_state = ''COMMITTED'',
       directUrl = ''https://files/manifest'',
       commitHash = Some ''c0ffee'',
       fileCount = Some 0,
       createdAt = Some ''2023-05-01'',
       updatedAt = None,
       artifactType = ''dataset'',
       attr_description = None,
       attr_metadata = None \<rparr>"

definition ex_future :: MessageFuture where
  "ex_future = MessageFuture (Some \<lparr> error_message = [], artifact_id = ''QXJ0'' \<rparr>)"

definition ex_env :: ext where
  "ex_env =
     \<lparr> LogicalPath = lstrip_slash,
       md5_b64 = (\<lambda>bytes. ''md5-'' @ bytes),
       b64_to_hex_id = (\<lambda>s. s),
       hex_to_b64_id = (\<lambda>s. s),
       url_scheme = ex_scheme,
       host_from_path = ex_host,
       uri_from_path = ex_uri,
       staging_dir = ''/staging'',
       tmp_name = (\<lambda>d n. d @ ''/tmp'' @ str_nat n),
       TMP_DIR = ''/tmp/wandb-artifacts'',
       py_id = (\<lambda>s. s),
       ref_url = (\<lambda>e. case ref e of None \<Rightarrow> Inl (ValueError ''no reference'') | Some r \<Rightarrow> Inr r),
       store_reference = (\<lambda>a uri nm checksum max_objects. Inr []),
       with_suffixes = [\<lambda>n. if endswith n ''table.json'' then n else n @ ''.table.json''],
       artifact_dir = ''./artifacts'',
       is_windows = False,
       splitdrive = (\<lambda>s. ([], s)),
       abspath = (\<lambda>s. s),
       fetch = (\<lambda>e. Inr (drop 4 (digest e))),
       execute = (\<lambda>q. Inr \<lparr> AddAliasesInputInfoType = True, artifact = Some ex_attrs \<rparr>),
       fetch_manifest = (\<lambda>u. Inr \<lparr> entries = [] \<rparr>),
       alias_is_version_index = ex_version_index,
       have_run = True,
       communicate_artifact = (\<lambda>q. Inr ex_future),
       manifest_digest = (\<lambda>m. concat (map (\<lambda>(p, en). p @ '':'' @ digest en @ '';'') (entries m))),
       json_roundtrip = Inr,
       new_ids = (\<lambda>s. (s @ ''-c'', s @ ''-s'')) \<rparr>"

text \<open>The same environment with a backend older than 0.13.0.\<close>

definition ex_old_backend :: ext where
  "ex_old_backend =
     ex_env\<lparr> execute := (\<lambda>q. Inr \<lparr> AddAliasesInputInfoType = False, artifact = None \<rparr>) \<rparr>"

text \<open>The artifact \<open>Artifact('mnist', 'dataset')\<close> right after construction.\<close>

definition ex_draft :: Artifact where
  "ex_draft =
     \<lparr> client = None, tmp_dir = None, added_objs = [], added_local_paths = [],
       save_future = None, dependent_artifacts = [], download_roots = [],
       id' = None, client_id = ''c1'', sequence_client_id = ''s1'',
       entity = None, project = None, name = ''mnist'', version = None,
       source_entity = None, source_project = None, source_name = ''mnist'',
       source_version = None, type' = ''dataset'', description = None, metadata = [],
       aliases = [''latest''], saved_aliases = [], distributed_id = None,
       incremental = False, use_as = None, state = PENDING,
       manifest = \<lparr> entries = [] \<rparr>, commit_hash = None, file_count = None,
       created_at = None, updated_at = None, final = False \<rparr>"

text \<open>
  The draft after \<open>save\<close> in \<open>ex_env\<close>, finalized and holding its save future, and
  after \<open>wait\<close>, committed with the server's identity.
\<close>

definition ex_submitted :: Artifact where
  "ex_submitted =
     ex_draft\<lparr> client := Some RetryingClient, save_future := Some ex_future, final := True \<rparr>"

definition ex_logged :: Artifact where
  "ex_logged =
     ex_submitted\<lparr> id' := Some ''QXJ0'', entity := Some ''team'', project := Some ''proj'',
                   name := ''mnist:v0'', version := Some ''v0'',
                   source_entity := Some ''team'', source_project := Some ''proj'',
                   source_name := ''mnist:v0'', source_version := Some ''v0'',
                   state := COMMITTED, commit_hash := Some ''c0ffee'', file_count := Some 0,
                   created_at := Some ''2023-05-01'' \<rparr>"

definition ex_file_entry :: ArtifactManifestEntry where
  "ex_file_entry =
     \<lparr> path = ''a.txt'', digest = ''md5-hello'', ref = None, entry_size = Some 5,
       local_path = None \<rparr>"

definition ex_ref_entry :: ArtifactManifestEntry where
  "ex_ref_entry =
     \<lparr> path = ''r.bin'', digest = ''etag-1'', ref = Some ''s3://bucket/r.bin'',
       entry_size = None, local_path = None \<rparr>"

text \<open>
  A committed, final artifact with one file entry and one reference entry of unknown
  size, whose alias list was edited after the last synchronisation.
\<close>

definition ex_committed :: Artifact where
  "ex_committed =
     ex_logged\<lparr> aliases := [''latest'', ''best''], saved_aliases := [''latest'', ''old''],
                manifest := \<lparr> entries = [(''a.txt'', ex_file_entry), (''r.bin'', ex_ref_entry)] \<rparr> \<rparr>"

definition ex_world :: world where
  "ex_world =
     \<lparr> files = [(''/data/a.txt'', ''hello''), (''/data/b.txt'', ''hello'')],
       dirs = [''/data''],
       tmp_counter = 0 \<rparr>"

definition ex_table :: WBValue where
  "ex_table =
     \<lparr> obj_id = 1, allowed_type = True, artifact_entry_ref_url = None,
       with_suffix = (\<lambda>n. if endswith n ''table.json'' then n else n @ ''.table.json''),
       to_json = (\<lambda>a w. (Inr ''{}'', a, w)) \<rparr>"


text \<open>
  The name under which \<open>add_file\<close> stores a file with the given bytes, the entry it
  builds from the staging copy, and the file system after the copy was staged.
\<close>


definition add_file_key :: "ext \<Rightarrow> string \<Rightarrow> bool \<Rightarrow> string \<Rightarrow> string" where
  "add_file_key x nm is_tmp bytes =
     (if is_tmp then tmp_rename x (LogicalPath x nm) (md5_b64 x bytes) else LogicalPath x nm)"

definition staged_entry :: "ext \<Rightarrow> string \<Rightarrow> bool \<Rightarrow> string \<Rightarrow> world \<Rightarrow> ArtifactManifestEntry" where
  "staged_entry x nm is_tmp bytes w =
     \<lparr> path = add_file_key x nm is_tmp bytes,
       digest = md5_b64 x bytes,
       ref = None,
       entry_size = Some (int (length bytes)),
       local_path = Some (tmp_name x (staging_dir x) (tmp_counter w)) \<rparr>"

definition staged_world :: "ext \<Rightarrow> string \<Rightarrow> world \<Rightarrow> world" where
  "staged_world x bytes w =
     write_file (tmp_name x (staging_dir x) (tmp_counter w)) bytes
       (write_file (tmp_name x (staging_dir x) (tmp_counter w)) []
          (w\<lparr> tmp_counter := Suc (tmp_counter w) \<rparr>))"

text \<open>
  An entry without a reference matches the directory \<open>root\<close> when the file at
  \<open>root\<close> joined with its path exists and its hash is the recorded digest.
\<close>


definition entry_matches :: "ext \<Rightarrow> world \<Rightarrow> string \<Rightarrow> ArtifactManifestEntry \<Rightarrow> bool" where
  "entry_matches x w root e =
     (case map_of (files w) (path_join root (path e)) of
        None \<Rightarrow> False
      | Some bytes \<Rightarrow> md5_b64 x bytes = digest e)"

text \<open>
  What the claim about \<open>verify\<close> calls a file with a corresponding manifest entry,
  written out over the keys of the manifest: the names a file is looked up under are its
  normalised relative path and that path suffixed for each class of the type mapping, and
  the file has an entry when one of these names is a key.
\<close>

definition entry_names :: "ext \<Rightarrow> string \<Rightarrow> string list" where
  "entry_names x rel =
     LogicalPath x rel # map (\<lambda>suffixed. suffixed (LogicalPath x rel)) (with_suffixes x)"

definition has_entry :: "ext \<Rightarrow> Artifact \<Rightarrow> string \<Rightarrow> bool" where
  "has_entry x a rel =
     list_ex (\<lambda>k. k \<in> set (dict_keys (entries (manifest a)))) (entry_names x rel)"

text \<open>
  A download directory holding the artifact's file and a file the manifest does not
  know, the same directory without the unknown file, the committed artifact without its
  reference entry, a cache that holds the committed artifact under its id, and dependent
  artifacts whose download does nothing.
\<close>


definition ex_out_world :: world where
  "ex_out_world =
     \<lparr> files = [(''/out/a.txt'', ''hello''), (''/out/junk.txt'', ''x''), (''/data/a.txt'', ''hello'')],
       dirs = [''/out'', ''/data''],
       tmp_counter = 0 \<rparr>"

definition ex_clean_world :: world where
  "ex_clean_world =
     \<lparr> files = [(''/out/a.txt'', ''hello''), (''/data/a.txt'', ''hello'')],
       dirs = [''/out'', ''/data''],
       tmp_counter = 0 \<rparr>"

definition ex_sized :: Artifact where
  "ex_sized = ex_committed\<lparr> manifest := \<lparr> entries = [(''a.txt'', ex_file_entry)] \<rparr> \<rparr>"

definition ex_deps :: "string \<Rightarrow> world \<Rightarrow> (error + string) \<times> world" where
  "ex_deps d w = (Inr d, w)"

definition ex_cache :: "Artifact dict" where
  "ex_cache = [(''QXJ0'', ex_committed)]"

text \<open>
  A download directory that holds nothing but a file the manifest does not know, and an
  artifact whose only entry is a table stored under its suffixed name, with a directory
  that holds the table and a file named without the suffix.
\<close>

definition ex_junk_world :: world where
  "ex_junk_world =
     \<lparr> files = [(''/out/junk.txt'', ''x'')], dirs = [''/out''], tmp_counter = 0 \<rparr>"

definition ex_table_entry :: ArtifactManifestEntry where
  "ex_table_entry =
     \<lparr> path = ''t.table.json'', digest = ''md5-{}'', ref = None, entry_size = Some 2,
       local_path = None \<rparr>"

definition ex_tabled :: Artifact where
  "ex_tabled = ex_logged\<lparr> manifest := \<lparr> entries = [(''t.table.json'', ex_table_entry)] \<rparr> \<rparr>"

definition ex_table_world :: world where
  "ex_table_world =
     \<lparr> files = [(''/out/t.table.json'', ''{}''), (''/out/t'', ''other'')],
       dirs = [''/out''], tmp_counter = 0 \<rparr>"

section \<open>Facts about the example objects\<close>

lemma str_nat_0: "str_nat 0 = ''0''"
  by (subst str_nat.simps) simp

lemma name_matches_mnist: "name_matches ''mnist''"
  by (simp add: name_matches_def name_char_def)

lemma init_ex:
  "Artifact_init Inr ''c1'' ''s1'' ''mnist'' ''dataset'' None None False None = Inr ex_draft"
  by (simp add: Artifact_init_def name_matches_mnist startswith_def normalize_metadata_def
      ex_draft_def)

lemma save_ex:
  "save ex_env None ex_draft =
     (Inr (), ex_submitted,
      [Sent (CreateOrFetchArtifact [] ''mnist'' ''dataset'' [''latest''] [] None)])"
  by (simp add: save_def log_artifact_def finalize_def set_save_future_def ex_env_def
      ex_draft_def ex_submitted_def Let_def)

lemma wait_ex:
  "wait ex_env ex_submitted = (Inr (), ex_logged, [Sent (ArtifactByID ''QXJ0'')])"
  by (simp add: wait_def ex_submitted_def ex_draft_def ex_future_def populate_after_save_def
      ex_env_def ex_attrs_def str_nat_0 own_aliases_def split_head_def ex_version_index_def
      parse_state_def ex_logged_def Let_def)

lemma ex_committed_simps:
  "state ex_committed = COMMITTED" "client ex_committed = Some RetryingClient"
  "id' ex_committed = Some ''QXJ0''" "aliases ex_committed = [''latest'', ''best'']"
  "saved_aliases ex_committed = [''latest'', ''old'']" "name ex_committed = ''mnist:v0''"
  "description ex_committed = None" "metadata ex_committed = []"
  "entity ex_committed = Some ''team''" "project ex_committed = Some ''proj''"
  "final ex_committed"
  "manifest ex_committed = \<lparr> entries = [(''a.txt'', ex_file_entry), (''r.bin'', ex_ref_entry)] \<rparr>"
  by (simp_all add: ex_committed_def ex_logged_def ex_submitted_def ex_draft_def)

section \<open>The size of an artifact\<close>

lemma size_loop_sum:
  "size_loop es acc =
     acc + sum_list (map (\<lambda>e. case entry_size e of None \<Rightarrow> 0 | Some n \<Rightarrow> n) es)"
  by (induction es arbitrary: acc) (auto split: option.splits)

lemma known_sum:
  "sum_list (map (\<lambda>e. case entry_size e of None \<Rightarrow> 0 | Some n \<Rightarrow> n) es) =
   sum_list (map (\<lambda>e. the (entry_size e)) (filter (\<lambda>e. entry_size e \<noteq> None) es))"
  by (induction es) (auto split: option.splits)

text \<open>
  Claim C10. For every artifact, the \<open>size\<close> property returns the sum of the sizes of
  exactly those manifest entries whose size is not \<open>None\<close>. The property is a total
  function into the integers: an entry of unknown size adds nothing and raises nothing.
\<close>

theorem size_is_sum_of_known_sizes:
  "Artifact_size a =
     sum_list (map (\<lambda>e. the (entry_size e))
       (filter (\<lambda>e. entry_size e \<noteq> None) (dict_values (entries (manifest a)))))"
  by (simp add: Artifact_size_def size_loop_sum known_sum)

theorem size_is_sum_of_known_sizes_witness: "Artifact_size ex_committed = 5"
  using size_is_sum_of_known_sizes [of ex_committed]
  by (simp add: ex_committed_simps dict_values_def ex_file_entry_def ex_ref_entry_def)

section \<open>The state, the save future and the final flag\<close>

text \<open>
  The methods that add entries leave the state, the save future and the \<open>_final\<close> flag
  of the artifact as they were, whether they return or raise; so do the thread pools
  they run.
\<close>

lemma add_local_file_flags:
  assumes "add_local_file x nm p dig a w = (r, b, w')"
  shows "state b = state a \<and> save_future b = save_future a \<and> final b = final a"
  using assms
  by (auto simp: add_local_file_def Let_def split: option.splits sum.splits)

lemma add_file_flags:
  assumes "add_file x p nmo is_tmp a w = (r, b, w')"
  shows "state b = state a \<and> save_future b = save_future a \<and> final b = final a"
  using assms add_local_file_flags
  by (fastforce simp: add_file_def Let_def split: sum.splits if_splits)

lemma run_chunk_keeps:
  assumes "\<forall>i s r s'. f i s = (r, s') \<longrightarrow> P s \<longrightarrow> P s'"
  shows "run_chunk f items s = (r, s') \<Longrightarrow> P s \<Longrightarrow> P s'"
proof (induction items arbitrary: s)
  case Nil
  then show ?case by simp
next
  case (Cons i items)
  obtain r1 s1 where f: "f i s = (r1, s1)" by (cases "f i s")
  with assms Cons.prems(2) have p: "P s1" by blast
  show ?case
  proof (cases r1)
    case (Inl e)
    with f Cons.prems(1) p show ?thesis by simp
  next
    case (Inr u)
    with f Cons.prems(1) have "run_chunk f items s1 = (r, s')" by simp
    with Cons.IH p show ?thesis by blast
  qed
qed

lemma run_chunks_keeps:
  assumes "\<forall>i s r s'. f i s = (r, s') \<longrightarrow> P s \<longrightarrow> P s'"
  shows "run_chunks f cs s = (r, s') \<Longrightarrow> P s \<Longrightarrow> P s'"
proof (induction cs arbitrary: s r s')
  case Nil
  then show ?case by simp
next
  case (Cons c cs)
  obtain r1 s1 where c: "run_chunk f c s = (r1, s1)" by (cases "run_chunk f c s")
  have p: "P s1"
    by (rule run_chunk_keeps [OF assms c Cons.prems(2)])
  obtain r2 s2 where d: "run_chunks f cs s1 = (r2, s2)" by (cases "run_chunks f cs s1")
  have q: "P s2"
    by (rule Cons.IH [OF d p])
  have "s' = s2"
    using c d Cons.prems(1) by (cases r1) auto
  with q show ?case by simp
qed

lemma pool_map_keeps:
  assumes "\<forall>i s r s'. f i s = (r, s') \<longrightarrow> P s \<longrightarrow> P s'"
  shows "pool_map n f items s = (r, s') \<Longrightarrow> P s \<Longrightarrow> P s'"
  unfolding pool_map_def by (rule run_chunks_keeps [OF assms])

lemma add_manifest_file_flags:
  assumes "add_manifest_file x lp s = (r, s')"
  shows "state (fst s') = state (fst s) \<and> save_future (fst s') = save_future (fst s) \<and>
         final (fst s') = final (fst s)"
proof -
  obtain r1 b w1 where l: "add_local_file x (fst lp) (snd lp) None (fst s) (snd s) = (r1, b, w1)"
    by (metis prod_cases3)
  from assms l have "fst s' = b"
    by (cases r1) (auto simp: add_manifest_file_def)
  with add_local_file_flags [OF l] show ?thesis by simp
qed

lemma add_dir_flags:
  assumes "add_dir x p nmo a w = (r, b, w')"
  shows "state b = state a \<and> save_future b = save_future a \<and> final b = final a"
proof (cases "final a \<or> \<not> isdir w p")
  case True
  with assms show ?thesis
    by (auto simp: add_dir_def ensure_can_add_def split: if_splits)
next
  case False
  let ?P = "\<lambda>s :: Artifact \<times> world.
              state (fst s) = state a \<and> save_future (fst s) = save_future a \<and> final (fst s) = final a"
  have k: "\<forall>i s r s'. add_manifest_file x i s = (r, s') \<longrightarrow> ?P s \<longrightarrow> ?P s'"
    using add_manifest_file_flags by metis
  from False assms obtain paths where
    m: "pool_map 8 (add_manifest_file x) paths (a, w) = (r, b, w')"
    by (auto simp: add_dir_def ensure_can_add_def Let_def)
  have "?P (b, w')"
    by (rule pool_map_keeps [OF k m]) simp
  then show ?thesis by simp
qed

lemma add_reference_flags:
  assumes "add_reference x uri nmo checksum max_objects a w = (r, b, w')"
  shows "state b = state a \<and> save_future b = save_future a \<and> final b = final a"
proof -
  have "b = a \<or> (\<exists>m. b = a\<lparr> manifest := m \<rparr>)"
    using assms
    unfolding add_reference_def Let_def
    by (simp split: sum.splits if_splits prod.splits) blast+
  then show ?thesis by auto
qed

lemma new_file_open_flags:
  assumes "new_file_open x nm a w = (r, b, w')"
  shows "state b = state a \<and> save_future b = save_future a \<and> final b = final a"
  using assms
  by (auto simp: new_file_open_def Let_def split: sum.splits if_splits option.splits)

lemma new_file_flags:
  assumes "new_file x nm bytes a w = (r, b, w')"
  shows "state b = state a \<and> save_future b = save_future a \<and> final b = final a"
proof -
  obtain r1 a1 w1 where o: "new_file_open x nm a w = (r1, a1, w1)"
    by (metis prod_cases3)
  note f1 = new_file_open_flags [OF o]
  show ?thesis
  proof (cases r1)
    case (Inl e)
    with o assms f1 show ?thesis by (simp add: new_file_def)
  next
    case (Inr p)
    obtain r2 a2 w2 where g: "add_file x p (Some nm) False a1 (write_file p bytes w1) = (r2, a2, w2)"
      by (metis prod_cases3)
    from o Inr g assms have "b = a2"
      by (cases r2) (auto simp: new_file_def)
    with add_file_flags [OF g] f1 show ?thesis by simp
  qed
qed

lemma add_flags:
  assumes "add x obj nm a w = (r, b, w')"
  shows "(state b = state a \<and> save_future b = save_future a \<and> final b = final a) \<or>
         (state b = state (fst (snd (to_json obj a w))) \<and>
          save_future b = save_future (fst (snd (to_json obj a w))) \<and>
          final b = final (fst (snd (to_json obj a w))))"
proof (cases "final a \<or> \<not> allowed_type obj \<or> map_of (added_objs a) (obj_id obj) \<noteq> None")
  case True
  with assms have "b = a"
    by (auto simp: add_def ensure_can_add_def Let_def split: if_splits)
  then show ?thesis by simp
next
  case False
  let ?nm1 = "LogicalPath x nm"
  show ?thesis
  proof (cases "artifact_entry_ref_url obj")
    case (Some ref_path)
    obtain r1 a1 w1 where ar:
      "add_reference x (Inr ref_path) (Some (with_suffix obj ?nm1)) True None a w = (r1, a1, w1)"
      by (metis prod_cases3)
    from False Some ar assms have "b = a1"
      by (auto simp: add_def ensure_can_add_def Let_def split: sum.splits list.splits)
    with add_reference_flags [OF ar] show ?thesis by simp
  next
    case None
    obtain rj aj wj where tj: "to_json obj a w = (rj, aj, wj)"
      by (metis prod_cases3)
    let ?nm2 = "with_suffix obj ?nm1"
    show ?thesis
    proof (cases "(\<exists>e. rj = Inl e) \<or> get_entry_by_path (manifest aj) ?nm2 \<noteq> None")
      case True
      with False None tj assms have "b = aj"
        by (auto simp: add_def ensure_can_add_def Let_def split: sum.splits)
      with tj show ?thesis by simp
    next
      case nf: False
      then obtain val where val: "rj = Inr val" by (cases rj) auto
      let ?tmp = "startswith ?nm1 ''media/tables''"
      let ?fp = "path_join (path_join (TMP_DIR x) (py_id x (client_id aj))) ?nm2"
      let ?written = "if ?tmp
                      then (Inr ?fp, aj, write_file ?fp val (makedirs (fst (path_split ?fp)) wj))
                      else new_file x ?nm2 val aj wj"
      obtain r2 a2 w2 where wr: "?written = (r2, a2, w2)"
        by (metis prod_cases3)
      have f2: "state a2 = state aj \<and> save_future a2 = save_future aj \<and> final a2 = final aj"
      proof (cases ?tmp)
        case True
        with wr show ?thesis by simp
      next
        case False
        with wr have "new_file x ?nm2 val aj wj = (r2, a2, w2)" by simp
        from new_file_flags [OF this] show ?thesis .
      qed
      have un: "add x obj nm a w =
                  (case ?written of
                     (Inl e, a2, w2) \<Rightarrow> (Inl e, a2, w2)
                   | (Inr file_path, a2, w2) \<Rightarrow>
                       (case add_file x file_path (Some ?nm2) ?tmp a2 w2 of
                          (Inl e, a3, w3) \<Rightarrow> (Inl e, a3, w3)
                        | (Inr entry, a3, w3) \<Rightarrow>
                            (Inr entry,
                             a3\<lparr> added_objs := AList.update (obj_id obj) entry (added_objs a3) \<rparr>,
                             if ?tmp \<and> path_exists w3 file_path
                             then remove_file file_path w3 else w3)))"
        using False None tj val nf
        by (simp add: add_def ensure_can_add_def Let_def)
      show ?thesis
      proof (cases r2)
        case (Inl e)
        with un wr assms have "b = a2" by simp
        with f2 tj show ?thesis by simp
      next
        case (Inr file_path)
        obtain r3 a3 w3 where af: "add_file x file_path (Some ?nm2) ?tmp a2 w2 = (r3, a3, w3)"
          by (metis prod_cases3)
        from un wr Inr af assms
        have "b = a3 \<or> (\<exists>l. b = a3\<lparr> added_objs := l \<rparr>)"
          by (cases r3) auto
        with add_file_flags [OF af] f2 tj show ?thesis by auto
      qed
    qed
  qed
qed

lemma download_flags:
  assumes "download x dd root recursive a w = (r, b, w')"
  shows "state b = state a \<and> save_future b = save_future a \<and> final b = final a"
proof -
  have "b = a \<or> b = add_download_root x (root_or_default x a True root) a"
    using assms
    unfolding download_def Let_def
    by (auto split: if_splits sum.splits prod.splits)
  then show ?thesis
    by (auto simp: add_download_root_def split: if_splits)
qed

lemma checkout_flags:
  assumes "checkout x dd root a w = (r, b, w')"
  shows "state b = state a \<and> save_future b = save_future a \<and> final b = final a"
proof (cases "state a = PENDING")
  case True
  with assms show ?thesis by (simp add: checkout_def)
next
  case False
  obtain r1 w1 where ru: "remove_untracked x a (walk w (root_or_default x a False root)) w = (r1, w1)"
    by (cases "remove_untracked x a (walk w (root_or_default x a False root)) w")
  show ?thesis
  proof (cases r1)
    case (Inl e)
    with False ru assms show ?thesis by (simp add: checkout_def Let_def)
  next
    case (Inr u)
    with False ru assms
    have "download x dd (Some (root_or_default x a False root)) False a w1 = (r, b, w')"
      by (simp add: checkout_def Let_def)
    from download_flags [OF this] show ?thesis .
  qed
qed

lemma update_aliases_flags:
  assumes "update_aliases x a = (r, b, effs)"
  shows "b = a \<or> b = a\<lparr> saved_aliases := aliases a \<rparr>"
  using assms
  unfolding update_aliases_def Let_def
  by (auto split: sum.splits if_splits prod.splits)

lemma Artifact_update_flags:
  assumes "Artifact_update x a = (r, b, effs)"
  shows "state b = state a \<and> save_future b = save_future a \<and> final b = final a"
proof -
  obtain r1 a1 e1 where u: "update_aliases x a = (r1, a1, e1)"
    by (metis prod_cases3)
  from assms u have "b = a \<or> b = a1"
    unfolding Artifact_update_def Let_def
    by (auto split: option.splits sum.splits)
  with update_aliases_flags [OF u] show ?thesis by auto
qed

lemma populate_after_save_flags:
  assumes "populate_after_save x aid a = (r, b, effs)"
  shows "save_future b = save_future a \<and> final b = final a"
  using assms
  unfolding populate_after_save_def Let_def
  by (simp split: option.splits sum.splits) auto

lemma wait_flags:
  assumes "wait x a = (r, b, effs)"
  shows "save_future b = save_future a \<and> final b = final a \<and>
         (b = a \<or> save_future a \<noteq> None)"
proof (cases "state a = PENDING \<and> (\<exists>resp. save_future a = Some (MessageFuture (Some resp)) \<and>
                                      error_message resp = [])")
  case True
  then obtain resp where
    t: "state a = PENDING" "save_future a = Some (MessageFuture (Some resp))" "error_message resp = []"
    by blast
  with assms have "populate_after_save x (artifact_id resp) a = (r, b, effs)"
    by (simp add: wait_def)
  from populate_after_save_flags [OF this] t(2) show ?thesis by simp
next
  case False
  with assms have "b = a"
    by (auto simp: wait_def split: if_splits option.splits MessageFuture.splits)
  then show ?thesis by simp
qed

lemma log_artifact_final:
  assumes "log_artifact x a = (r, b, effs)"
  shows "final b \<and> state b = state a"
  using assms
  by (auto simp: log_artifact_def Let_def finalize_def set_save_future_def split: sum.splits)

lemma save_flags:
  assumes "save x proj a = (r, b, effs)"
  shows "state b = state a \<and>
         (final b \<or> (save_future b = save_future a \<and> final b = final a))"
proof (cases "state a = PENDING")
  case True
  obtain r1 b1 e1 where l: "log_artifact x a = (r1, b1, e1)"
    by (metis prod_cases3)
  with True assms have "b = b1" by (simp add: save_def)
  with log_artifact_final [OF l] show ?thesis by simp
next
  case False
  with assms have "Artifact_update x a = (r, b, effs)" by (simp add: save_def)
  from Artifact_update_flags [OF this] show ?thesis by simp
qed

lemma init_flags:
  assumes "Artifact_init jr cid scid nm ty descr meta incr useas = Inr a"
  shows "state a = PENDING \<and> save_future a = None \<and> \<not> final a"
  using assms by (auto simp: Artifact_init_def split: if_splits sum.splits)

lemma from_attrs_final:
  assumes "from_attrs x cid scid aid ent proj nm at = Inr a"
  shows "final a"
  using assms
  unfolding from_attrs_def Let_def
  by (simp split: sum.splits if_splits) auto

lemma new_draft_flags:
  assumes "new_draft jr mr cid scid a = Inr b"
  shows "state b = PENDING \<and> save_future b = None"
proof -
  from assms obtain b0 m where
    "Artifact_init jr cid scid (split_head (CHR '':'') (source_name a)) (type' a)
       None None False None = Inr b0"
    "b = b0\<lparr> description := description a, metadata := metadata a, manifest := m \<rparr>"
    by (auto simp: new_draft_def split: if_splits sum.splits)
  with init_flags show ?thesis by fastforce
qed

text \<open>
  \<open>_ensure_can_add\<close> reads \<open>_final\<close> only. An artifact leaves the state \<open>PENDING\<close>
  in \<open>from_attrs\<close>, which sets \<open>_final\<close>, or in \<open>wait\<close>, which needs the save future
  that \<open>log_artifact\<close> hands over after finalizing: every artifact the program can hold
  that is logged, or whose save has started, is final.
\<close>

lemma produced_final:
  assumes "produced a"
  shows "state a \<noteq> PENDING \<or> save_future a \<noteq> None \<longrightarrow> final a"
  using assms
proof (induction rule: produced.induct)
  case (by_init jr cid scid nm ty descr meta incr useas a)
  from init_flags [OF by_init.hyps] show ?case by simp
next
  case (by_from_attrs x cid scid aid ent proj nm at a)
  from from_attrs_final [OF by_from_attrs.hyps] show ?case by simp
next
  case (by_new_draft a jr mr cid scid b)
  from new_draft_flags [OF by_new_draft.hyps(2)] show ?case by simp
next
  case (by_finalize a)
  then show ?case by (simp add: finalize_def)
next
  case (by_set_aliases a als b)
  then show ?case by (auto simp: set_aliases_def split: if_splits)
next
  case (by_set_description a d)
  then show ?case by (simp add: set_description_def)
next
  case (by_set_metadata a jr m b)
  then show ?case by (auto simp: set_metadata_def split: sum.splits)
next
  case (by_set_distributed_id a d)
  then show ?case by (simp add: set_distributed_id_def)
next
  case (by_add_file a x p nmo is_tmp w r b w')
  with add_file_flags [OF by_add_file.hyps(2)] show ?case by simp
next
  case (by_add_dir a x p nmo w ru b w')
  with add_dir_flags [OF by_add_dir.hyps(2)] show ?case by simp
next
  case (by_add_reference a x uri nmo checksum max_objects w rs b w')
  with add_reference_flags [OF by_add_reference.hyps(2)] show ?case by simp
next
  case (by_new_file a x nm bytes w rp b w')
  with new_file_flags [OF by_new_file.hyps(2)] show ?case by simp
next
  case (by_add a obj w x nm r b w')
  from add_flags [OF by_add.hyps(3)] show ?case
  proof
    assume "state b = state a \<and> save_future b = save_future a \<and> final b = final a"
    with by_add.IH(1) show ?case by simp
  next
    assume "state b = state (fst (snd (to_json obj a w))) \<and>
            save_future b = save_future (fst (snd (to_json obj a w))) \<and>
            final b = final (fst (snd (to_json obj a w)))"
    with by_add.IH(2) show ?case by simp
  qed
next
  case (by_save a x proj ru b effs)
  from save_flags [OF by_save.hyps(2)] by_save.IH show ?case
    by (cases "final b") simp_all
next
  case (by_wait a x ru b effs)
  from wait_flags [OF by_wait.hyps(2)] by_wait.IH show ?case
    by (cases "b = a") simp_all
next
  case (by_download a x dep_download root recursive w rp b w')
  with download_flags [OF by_download.hyps(2)] show ?case by simp
next
  case (by_checkout a x dep_download root w rp b w')
  with checkout_flags [OF by_checkout.hyps(2)] show ?case by simp
next
  case (by_delete a x delete_aliases ru b effs)
  then have "b = a"
    by (auto simp: Artifact_delete_def Let_def split: if_splits option.splits sum.splits)
  with by_delete show ?case by simp
qed

section \<open>A new artifact\<close>

text \<open>
  Claim C9. Every artifact the constructor returns has the alias list \<open>["latest"]\<close>, no
  synchronised aliases and the state \<open>PENDING\<close>, whatever the caller passed. \<open>save\<close>
  on it (after starting a run when there is none) submits one \<open>createOrFetchArtifact\<close>
  request, and the aliases of that request are \<open>["latest"]\<close>. Only an assignment to
  \<open>aliases\<close> changes the list: after it \<open>save\<close> submits the assigned list in place of
  \<open>["latest"]\<close>, everything else in the request being the same.
\<close>

theorem new_artifact_has_latest:
  assumes "Artifact_init jr cid scid nm ty descr meta incr useas = Inr a"
  shows "aliases a = [''latest''] \<and> saved_aliases a = [] \<and> state a = PENDING \<and>
         snd (snd (save x proj a)) =
           (if have_run x then [] else [InitRun proj]) @
           [Sent (CreateOrFetchArtifact (manifest_digest x (manifest a)) (name a) (type' a)
                    [''latest''] (metadata a) (description a))] \<and>
         (\<forall>als a'. set_aliases als a = Inr a' \<longrightarrow>
            aliases a' = als \<and>
            snd (snd (save x proj a')) =
              (if have_run x then [] else [InitRun proj]) @
              [Sent (CreateOrFetchArtifact (manifest_digest x (manifest a)) (name a) (type' a)
                       als (metadata a) (description a))])"
proof -
  from assms have i: "aliases a = [''latest''] \<and> saved_aliases a = [] \<and> state a = PENDING"
    by (auto simp: Artifact_init_def split: if_splits sum.splits)
  have s: "\<And>b. state b = PENDING \<Longrightarrow>
             snd (snd (save x proj b)) =
               (if have_run x then [] else [InitRun proj]) @
               [Sent (CreateOrFetchArtifact (manifest_digest x (manifest b)) (name b) (type' b)
                        (aliases b) (metadata b) (description b))]"
    by (simp add: save_def log_artifact_def finalize_def Let_def split: sum.splits)
  have t: "\<And>als a'. set_aliases als a = Inr a' \<Longrightarrow> a' = a\<lparr> aliases := als \<rparr>"
    by (auto simp: set_aliases_def split: if_splits)
  show ?thesis
  proof (intro conjI allI impI)
    show "aliases a = [''latest'']" "saved_aliases a = []" "state a = PENDING"
      using i by simp_all
    show "snd (snd (save x proj a)) =
           (if have_run x then [] else [InitRun proj]) @
           [Sent (CreateOrFetchArtifact (manifest_digest x (manifest a)) (name a) (type' a)
                    [''latest''] (metadata a) (description a))]"
      using s [of a] i by simp
  next
    fix als a'
    assume "set_aliases als a = Inr a'"
    from t [OF this] show "aliases a' = als"
      by simp
  next
    fix als a'
    assume "set_aliases als a = Inr a'"
    from t [OF this] have a': "a' = a\<lparr> aliases := als \<rparr>" .
    with i have "state a' = PENDING"
      by simp
    from s [OF this] a'
    show "snd (snd (save x proj a')) =
              (if have_run x then [] else [InitRun proj]) @
              [Sent (CreateOrFetchArtifact (manifest_digest x (manifest a)) (name a) (type' a)
                       als (metadata a) (description a))]"
      by simp
  qed
qed

theorem new_artifact_has_latest_witness:
  "aliases ex_draft = [''latest''] \<and> saved_aliases ex_draft = [] \<and> state ex_draft = PENDING \<and>
   snd (snd (save ex_env None ex_draft)) =
     [Sent (CreateOrFetchArtifact [] ''mnist'' ''dataset'' [''latest''] [] None)] \<and>
   set_aliases [''best''] ex_draft = Inr (ex_draft\<lparr> aliases := [''best''] \<rparr>) \<and>
   snd (snd (save ex_env None (ex_draft\<lparr> aliases := [''best''] \<rparr>))) =
     [Sent (CreateOrFetchArtifact [] ''mnist'' ''dataset'' [''best''] [] None)]"
proof -
  have r: "have_run ex_env"
    by (simp add: ex_env_def)
  have d: "manifest_digest ex_env (manifest ex_draft) = []" "name ex_draft = ''mnist''"
    "type' ex_draft = ''dataset''" "metadata ex_draft = []" "description ex_draft = None"
    by (simp_all add: ex_env_def ex_draft_def)
  have b: "set_aliases [''best''] ex_draft = Inr (ex_draft\<lparr> aliases := [''best''] \<rparr>)"
    by (simp add: set_aliases_def)
  from new_artifact_has_latest [OF init_ex, of ex_env None] r d b show ?thesis
    by simp
qed

section \<open>Server-assigned fields of a draft\<close>

text \<open>
  Claim C2, as the code has it. On an artifact in the state \<open>PENDING\<close>, the properties
  \<open>version\<close>, \<open>commit_hash\<close>, \<open>created_at\<close>, \<open>updated_at\<close>, \<open>entity\<close>, \<open>project\<close>,
  \<open>source_entity\<close>, \<open>source_project\<close> and \<open>file_count\<close> raise
  \<open>ArtifactNotLoggedError\<close>; the properties \<open>id\<close> and \<open>source_version\<close> raise nothing
  and return \<open>None\<close>.
\<close>

theorem draft_fields_not_logged:
  assumes "state a = PENDING"
  shows "Artifact_version a = Inl (ArtifactNotLoggedError ''version'') \<and>
         Artifact_commit_hash a = Inl (ArtifactNotLoggedError ''commit_hash'') \<and>
         Artifact_created_at a = Inl (ArtifactNotLoggedError ''created_at'') \<and>
         Artifact_updated_at a = Inl (ArtifactNotLoggedError ''created_at'') \<and>
         Artifact_entity a = Inl (ArtifactNotLoggedError ''entity'') \<and>
         Artifact_project a = Inl (ArtifactNotLoggedError ''project'') \<and>
         Artifact_source_entity a = Inl (ArtifactNotLoggedError ''source_entity'') \<and>
         Artifact_source_project a = Inl (ArtifactNotLoggedError ''source_project'') \<and>
         Artifact_file_count a = Inl (ArtifactNotLoggedError ''file_count'') \<and>
         Artifact_id a = Inr None \<and>
         Artifact_source_version a = Inr None"
  using assms
  by (simp add: Artifact_version_def Artifact_commit_hash_def Artifact_created_at_def
      Artifact_updated_at_def Artifact_entity_def Artifact_project_def Artifact_source_entity_def
      Artifact_source_project_def Artifact_file_count_def Artifact_id_def
      Artifact_source_version_def)

theorem draft_fields_not_logged_witness:
  "Artifact_version ex_draft = Inl (ArtifactNotLoggedError ''version'') \<and>
   Artifact_commit_hash ex_draft = Inl (ArtifactNotLoggedError ''commit_hash'') \<and>
   Artifact_entity ex_draft = Inl (ArtifactNotLoggedError ''entity'') \<and>
   Artifact_source_version ex_draft = Inr None"
proof -
  have "state ex_draft = PENDING"
    by (simp add: ex_draft_def)
  from draft_fields_not_logged [OF this] show ?thesis
    by simp
qed

text \<open>
  The claim as stated fails for the server id: on the draft \<open>ex_draft\<close> the property
  \<open>id\<close> returns \<open>None\<close> instead of raising.
\<close>

theorem draft_id_is_none: "state ex_draft = PENDING \<and> Artifact_id ex_draft = Inr None"
  by (simp add: ex_draft_def Artifact_id_def)

section \<open>Mutators on a finalized artifact\<close>

lemma final_mutators_fail:
  assumes "final a"
  shows "add_file x p nmo is_tmp a w = (Inl ArtifactFinalizedError, a, w) \<and>
         add_dir x p nmo a w = (Inl ArtifactFinalizedError, a, w) \<and>
         add_reference x uri nmo checksum max_objects a w = (Inl ArtifactFinalizedError, a, w) \<and>
         new_file x nm bytes a w = (Inl ArtifactFinalizedError, a, w) \<and>
         add x obj nm a w = (Inl ArtifactFinalizedError, a, w)"
  using assms
  by (simp add: add_file_def add_dir_def add_reference_def new_file_def new_file_open_def
      add_def ensure_can_add_def)

lemma produced_ex_logged: "produced ex_logged"
  by (rule by_wait [OF by_save [OF by_init [OF init_ex] save_ex] wait_ex])

text \<open>
  Claim C1. On an artifact whose \<open>_final\<close> flag is set, and on every artifact the
  program can hold whose state is not \<open>PENDING\<close>, each of \<open>add_file\<close>, \<open>add_dir\<close>,
  \<open>add_reference\<close>, \<open>new_file\<close> and \<open>add\<close> raises \<open>ArtifactFinalizedError\<close> and
  leaves the artifact, its manifest included, and the file system as they were.
\<close>

theorem finalized_mutators_fail:
  assumes "final a \<or> (produced a \<and> state a \<noteq> PENDING)"
  shows "add_file x p nmo is_tmp a w = (Inl ArtifactFinalizedError, a, w) \<and>
         add_dir x p nmo a w = (Inl ArtifactFinalizedError, a, w) \<and>
         add_reference x uri nmo checksum max_objects a w = (Inl ArtifactFinalizedError, a, w) \<and>
         new_file x nm bytes a w = (Inl ArtifactFinalizedError, a, w) \<and>
         add x obj nm a w = (Inl ArtifactFinalizedError, a, w)"
proof -
  from assms produced_final have "final a"
    by blast
  then show ?thesis
    by (rule final_mutators_fail)
qed

theorem finalized_mutators_fail_witness:
  "produced ex_logged \<and> state ex_logged \<noteq> PENDING \<and>
   add_file ex_env ''/data/a.txt'' None False ex_logged ex_world =
     (Inl ArtifactFinalizedError, ex_logged, ex_world) \<and>
   add_dir ex_env ''/data'' None ex_logged ex_world =
     (Inl ArtifactFinalizedError, ex_logged, ex_world) \<and>
   add_reference ex_env (Inr ''s3://bucket/r.bin'') None True None ex_logged ex_world =
     (Inl ArtifactFinalizedError, ex_logged, ex_world) \<and>
   new_file ex_env ''hello.txt'' ''hello!'' ex_logged ex_world =
     (Inl ArtifactFinalizedError, ex_logged, ex_world) \<and>
   add ex_env ex_table ''my_table'' ex_logged ex_world =
     (Inl ArtifactFinalizedError, ex_logged, ex_world) \<and>
   final (finalize ex_draft) \<and>
   add_file ex_env ''/data/a.txt'' None False (finalize ex_draft) ex_world =
     (Inl ArtifactFinalizedError, finalize ex_draft, ex_world)"
proof -
  have s: "state ex_logged \<noteq> PENDING"
    by (simp add: ex_logged_def)
  have f: "final (finalize ex_draft)"
    by (simp add: finalize_def)
  from produced_ex_logged s
  have h: "final ex_logged \<or> (produced ex_logged \<and> state ex_logged \<noteq> PENDING)"
    by simp
  from f
  have g: "final (finalize ex_draft) \<or>
           (produced (finalize ex_draft) \<and> state (finalize ex_draft) \<noteq> PENDING)"
    by simp
  from finalized_mutators_fail [OF h] finalized_mutators_fail [OF g] produced_ex_logged s f
  show ?thesis
    by simp
qed

section \<open>Updating and deleting a logged artifact\<close>

lemma set_set_diff: "set (set_diff xs ys) = set xs - set ys"
  by (auto simp: set_diff_def)

lemma set_diff_empty: "set_diff xs ys = [] \<longleftrightarrow> set xs \<subseteq> set ys"
  using set_set_diff [of xs ys] by (metis Diff_eq_empty_iff set_empty)

text \<open>
  Claim C7, as the code has it. \<open>save\<close> on a logged artifact whose client answers every
  request first asks whether the backend knows \<open>AddAliasesInput\<close>. If it does, the
  aliases are sent as differences only: one \<open>addAliases\<close> mutation with the aliases that
  are in memory and were not synchronised, when there are any, one \<open>deleteAliases\<close>
  mutation with those that were synchronised and are no longer in memory, when there are
  any, and \<open>updateArtifact\<close> without aliases; afterwards the synchronised list is the
  in-memory list. If it does not, nothing but \<open>updateArtifact\<close> is sent, it carries the
  whole in-memory alias list, and the synchronised list stays as it was. Either way
  \<open>updateArtifact\<close> carries the description and the metadata as they are, and returns
  normally.
\<close>

theorem update_sends_alias_deltas:
  assumes "state a \<noteq> PENDING" and "client a = Some c" and "id' a = Some i"
      and "execute x ProbeServerAddAliasesInput = Inr r0"
      and "\<And>q. \<exists>r. execute x q = Inr r"
  shows "(AddAliasesInputInfoType r0 \<longrightarrow>
            save x proj a =
              (Inr (), a\<lparr> saved_aliases := aliases a \<rparr>,
               [Sent ProbeServerAddAliasesInput]
               @ (if set (aliases a) \<subseteq> set (saved_aliases a) then []
                  else [Sent (AddAliases (Some i)
                          (alias_input a ` (set (aliases a) - set (saved_aliases a))))])
               @ (if set (saved_aliases a) \<subseteq> set (aliases a) then []
                  else [Sent (DeleteAliases (Some i)
                          (alias_input a ` (set (saved_aliases a) - set (aliases a))))])
               @ [Sent (UpdateArtifact (Some i) (description a) (metadata a) None)])) \<and>
         (\<not> AddAliasesInputInfoType r0 \<longrightarrow>
            save x proj a =
              (Inr (), a,
               [Sent ProbeServerAddAliasesInput,
                Sent (UpdateArtifact (Some i) (description a) (metadata a)
                        (Some (map (\<lambda>al. (split_head (CHR '':'') (name a), al)) (aliases a))))]))"
proof -
  have ex: "\<And>q. case execute x q of Inl e \<Rightarrow> False | Inr r \<Rightarrow> True"
    using assms(5) by (metis sum.case(2))
  have idv: "Artifact_id a = Inr (Some i)"
    using assms(1,3) by (simp add: Artifact_id_def)
  have old: "\<not> AddAliasesInputInfoType r0 \<Longrightarrow>
      update_aliases x a =
        (Inr (Some (map (\<lambda>al. (split_head (CHR '':'') (name a), al)) (aliases a))), a,
         [Sent ProbeServerAddAliasesInput])"
    using assms(4) by (simp add: update_aliases_def)
  have new: "AddAliasesInputInfoType r0 \<Longrightarrow>
      update_aliases x a =
        (Inr None, a\<lparr> saved_aliases := aliases a \<rparr>,
         [Sent ProbeServerAddAliasesInput]
         @ (if set (aliases a) \<subseteq> set (saved_aliases a) then []
            else [Sent (AddAliases (Some i)
                    (alias_input a ` (set (aliases a) - set (saved_aliases a))))])
         @ (if set (saved_aliases a) \<subseteq> set (aliases a) then []
            else [Sent (DeleteAliases (Some i)
                    (alias_input a ` (set (saved_aliases a) - set (aliases a))))]))"
    using assms(4) idv
      ex [of "AddAliases (Some i) (alias_input a ` (set (aliases a) - set (saved_aliases a)))"]
      ex [of "DeleteAliases (Some i) (alias_input a ` (set (saved_aliases a) - set (aliases a)))"]
    by (simp add: update_aliases_def Let_def set_diff_empty set_set_diff split: sum.splits)
  have idv': "Artifact_id (a\<lparr> saved_aliases := aliases a \<rparr>) = Inr (Some i)"
    using assms(1,3) by (simp add: Artifact_id_def)
  show ?thesis
    using assms(1,2) old new idv idv'
      ex [of "UpdateArtifact (Some i) (description a) (metadata a) None"]
      ex [of "UpdateArtifact (Some i) (description a) (metadata a)
               (Some (map (\<lambda>al. (split_head (CHR '':'') (name a), al)) (aliases a)))"]
    by (auto simp: save_def Artifact_update_def Let_def split: sum.splits)
qed

theorem update_sends_alias_deltas_witness:
  "save ex_env None ex_committed =
     (Inr (), ex_committed\<lparr> saved_aliases := [''latest'', ''best''] \<rparr>,
      [Sent ProbeServerAddAliasesInput,
       Sent (AddAliases (Some ''QXJ0'')
              {\<lparr> entityName = Some ''team'', projectName = Some ''proj'',
                 artifactCollectionName = ''mnist'', alias' = ''best'' \<rparr>}),
       Sent (DeleteAliases (Some ''QXJ0'')
              {\<lparr> entityName = Some ''team'', projectName = Some ''proj'',
                 artifactCollectionName = ''mnist'', alias' = ''old'' \<rparr>}),
       Sent (UpdateArtifact (Some ''QXJ0'') None [] None)])"
proof -
  have p: "execute ex_env ProbeServerAddAliasesInput =
             Inr \<lparr> AddAliasesInputInfoType = True, artifact = Some ex_attrs \<rparr>"
    by (simp add: ex_env_def)
  have q: "\<And>q. \<exists>r. execute ex_env q = Inr r"
    by (simp add: ex_env_def)
  have s: "state ex_committed \<noteq> PENDING"
    by (simp add: ex_committed_simps)
  have d1: "set (aliases ex_committed) - set (saved_aliases ex_committed) = {''best''}"
    by (auto simp: ex_committed_simps)
  have d2: "set (saved_aliases ex_committed) - set (aliases ex_committed) = {''old''}"
    by (auto simp: ex_committed_simps)
  have n1: "\<not> set (aliases ex_committed) \<subseteq> set (saved_aliases ex_committed)"
    using d1 by blast
  have n2: "\<not> set (saved_aliases ex_committed) \<subseteq> set (aliases ex_committed)"
    using d2 by blast
  have al: "alias_input ex_committed ''best'' =
              \<lparr> entityName = Some ''team'', projectName = Some ''proj'',
                artifactCollectionName = ''mnist'', alias' = ''best'' \<rparr>"
           "alias_input ex_committed ''old'' =
              \<lparr> entityName = Some ''team'', projectName = Some ''proj'',
                artifactCollectionName = ''mnist'', alias' = ''old'' \<rparr>"
    by (simp_all add: alias_input_def ex_committed_simps split_head_def)
  from update_sends_alias_deltas [OF s ex_committed_simps(2) ex_committed_simps(3) p q, of None]
  have "save ex_env None ex_committed =
          (Inr (), ex_committed\<lparr> saved_aliases := aliases ex_committed \<rparr>,
           [Sent ProbeServerAddAliasesInput]
           @ [Sent (AddAliases (Some ''QXJ0'') (alias_input ex_committed ` {''best''}))]
           @ [Sent (DeleteAliases (Some ''QXJ0'') (alias_input ex_committed ` {''old''}))]
           @ [Sent (UpdateArtifact (Some ''QXJ0'') (description ex_committed)
                     (metadata ex_committed) None)])"
    by (simp only: n1 n2 d1 d2 if_False simp_thms response.simps)
  then show ?thesis
    by (simp add: al ex_committed_simps)
qed

text \<open>
  The claim as stated fails on a backend older than 0.13.0: there \<open>save\<close> on
  \<open>ex_committed\<close> sends the whole alias list inside \<open>updateArtifact\<close>, and the
  synchronised list still differs from the in-memory one afterwards.
\<close>

theorem update_old_backend_replaces:
  "save ex_old_backend None ex_committed =
     (Inr (), ex_committed,
      [Sent ProbeServerAddAliasesInput,
       Sent (UpdateArtifact (Some ''QXJ0'') None []
               (Some [(''mnist'', ''latest''), (''mnist'', ''best'')]))]) \<and>
   saved_aliases ex_committed \<noteq> aliases ex_committed"
  by (simp add: save_def Artifact_update_def update_aliases_def ex_old_backend_def ex_env_def
      ex_committed_simps Artifact_id_def split_head_def)

text \<open>
  Claim C8, as the code has it. \<open>delete\<close> on an artifact in the state \<open>PENDING\<close> raises
  \<open>ArtifactNotLoggedError\<close> and sends nothing. On a logged artifact with a client and an
  id, when the service accepts the request, \<open>delete\<close> sends the \<open>deleteArtifact\<close>
  mutation with the id and the \<open>delete_aliases\<close> flag and returns normally; it assigns
  no attribute, so the state of the object is what it was.
\<close>

theorem delete_sends_and_keeps_state:
  "(state a = PENDING \<longrightarrow>
      Artifact_delete x delete_aliases a = (Inl (ArtifactNotLoggedError ''delete''), a, [])) \<and>
   (state a \<noteq> PENDING \<and> client a = Some c \<and> id' a = Some i \<and>
    execute x (DeleteArtifact (Some i) delete_aliases) = Inr r \<longrightarrow>
      Artifact_delete x delete_aliases a =
        (Inr (), a, [Sent (DeleteArtifact (Some i) delete_aliases)]))"
  by (simp add: Artifact_delete_def Artifact_id_def)

theorem delete_sends_and_keeps_state_witness:
  "Artifact_delete ex_env True ex_draft = (Inl (ArtifactNotLoggedError ''delete''), ex_draft, []) \<and>
   Artifact_delete ex_env True ex_committed =
     (Inr (), ex_committed, [Sent (DeleteArtifact (Some ''QXJ0'') True)])"
proof -
  have d: "state ex_draft = PENDING"
    by (simp add: ex_draft_def)
  have e: "execute ex_env (DeleteArtifact (Some ''QXJ0'') True) =
             Inr \<lparr> AddAliasesInputInfoType = True, artifact = Some ex_attrs \<rparr>"
    by (simp add: ex_env_def)
  show ?thesis
    using delete_sends_and_keeps_state [where a = ex_draft and x = ex_env and delete_aliases = True]
      delete_sends_and_keeps_state [where a = ex_committed and x = ex_env and delete_aliases = True
        and c = RetryingClient and i = "''QXJ0''"]
    by (simp add: d e ex_committed_simps)
qed

text \<open>
  The claim as stated says the state becomes \<open>DELETED\<close>. After a successful
  \<open>delete(delete_aliases=True)\<close> on the committed artifact \<open>ex_committed\<close> the state of
  the object is still \<open>COMMITTED\<close>.
\<close>

theorem delete_keeps_local_state:
  "fst (Artifact_delete ex_env True ex_committed) = Inr () \<and>
   state (fst (snd (Artifact_delete ex_env True ex_committed))) = COMMITTED"
  by (simp add: Artifact_delete_def ex_committed_simps Artifact_id_def ex_env_def)

section \<open>Facts about the example environment\<close>

lemma ex_env_simps:
  "LogicalPath ex_env = lstrip_slash" "abspath ex_env = (\<lambda>s. s)"
  "fetch ex_env = (\<lambda>e. Inr (drop 4 (digest e)))"
  "md5_b64 ex_env = (\<lambda>bytes. ''md5-'' @ bytes)"
  by (simp_all add: ex_env_def)

lemma get_path_ex:
  "get_path ex_env ex_committed ''a.txt'' = Inr ex_file_entry"
  "get_path ex_env ex_committed ''junk.txt'' =
     Inl (KeyError ''Path not contained in artifact: junk.txt'')"
  by (simp_all add: get_path_def ex_committed_simps ex_env_def lstrip_slash_def get_obj_entry_def
      endswith_def)

lemma get_path_sized:
  "get_path ex_env ex_sized ''a.txt'' = Inr ex_file_entry"
  "get_path ex_env ex_sized ''junk.txt'' =
     Inl (KeyError ''Path not contained in artifact: junk.txt'')"
  by (simp_all add: get_path_def ex_sized_def ex_committed_simps ex_env_def lstrip_slash_def
      get_obj_entry_def endswith_def)

lemma get_path_download_roots:
  "get_path x (a\<lparr> download_roots := r \<rparr>) nm = get_path x a nm"
  by (simp add: get_path_def get_obj_entry_def Let_def cong: option.case_cong)

lemma walk_ex_world_out: "walk ex_world ''/out'' = []"
  by (simp add: walk_def ex_world_def dict_keys_def relpath_under_def rstrip_slash_def
      startswith_def List.map_filter_simps)

lemma walk_ex_out_world:
  "walk ex_out_world ''/out'' = [(''/out/a.txt'', ''a.txt''), (''/out/junk.txt'', ''junk.txt'')]"
  by (simp add: walk_def ex_out_world_def dict_keys_def relpath_under_def rstrip_slash_def
      startswith_def List.map_filter_simps)

lemma walk_ex_clean_world: "walk ex_clean_world ''/out'' = [(''/out/a.txt'', ''a.txt'')]"
  by (simp add: walk_def ex_clean_world_def dict_keys_def relpath_under_def rstrip_slash_def
      startswith_def List.map_filter_simps)

lemma out_a_missing: "map_of (files ex_world) ''/out/a.txt'' = None"
  by (simp add: ex_world_def)

lemma makedirs_existing: "d \<in> set (dirs w) \<Longrightarrow> makedirs d w = w"
  by (subst makedirs.simps) simp

lemma pool_map_one:
  "pool_map 32 f [i] s = (case f i s of (Inl e, s1) \<Rightarrow> (Inl e, s1) | (Inr u, s1) \<Rightarrow> (Inr (), s1))"
proof -
  have c: "chunked (Suc 0) [i] = [[i]]"
    by (subst chunked.simps, subst chunked.simps) simp
  show ?thesis
    by (simp add: pool_map_def chunksize_def c split: prod.splits sum.splits)
qed

lemma entry_download_ex:
  "entry_download ex_env ''/out'' ex_file_entry ex_clean_world = (Inr ''/out/a.txt'', ex_clean_world)"
proof -
  have p: "path_join ''/out'' (path ex_file_entry) = ''/out/a.txt''"
    by (simp add: ex_file_entry_def path_join_def startswith_def endswith_def)
  have d: "dirname ''/out/a.txt'' = ''/out''"
    by (simp add: dirname_def path_split_def basename_def rstrip_slash_def)
  have m: "makedirs ''/out'' ex_clean_world = ex_clean_world"
    by (rule makedirs_existing) (simp add: ex_clean_world_def)
  have f: "fetch ex_env ex_file_entry = Inr ''hello''"
    by (simp add: ex_env_simps ex_file_entry_def)
  have w: "write_file ''/out/a.txt'' ''hello'' ex_clean_world = ex_clean_world"
    by (simp add: write_file_def ex_clean_world_def)
  show ?thesis
    by (simp add: entry_download_def f p d m w Let_def)
qed

lemma ex_scheme_wb: "ex_scheme ''wandb-artifact://QXJ0/a.txt'' = ''wandb-artifact''"
  by (simp add: ex_scheme_def startswith_def)

lemma ex_host_wb: "ex_host ''wandb-artifact://QXJ0/a.txt'' = ''QXJ0''"
  by (simp add: ex_host_def ex_scheme_wb)

section \<open>Adding the same file again\<close>

lemma staged_world_files:
  "q \<noteq> tmp_name x (staging_dir x) (tmp_counter w) \<Longrightarrow>
   map_of (files (staged_world x bytes w)) q = map_of (files w) q"
  by (simp add: staged_world_def write_file_def update_conv')

lemma add_file_unfold:
  assumes "\<not> final a" and "map_of (files w) p = Some bytes"
      and "tmp_name x (staging_dir x) (tmp_counter w) \<noteq> p" and "nm \<noteq> []"
  shows "add_file x p (Some nm) is_tmp a w =
           (case add_entry (manifest a) (staged_entry x nm is_tmp bytes w) of
              Inl e \<Rightarrow> (Inl e, a, staged_world x bytes w)
            | Inr m \<Rightarrow>
                (Inr (staged_entry x nm is_tmp bytes w),
                 a\<lparr> manifest := m,
                    added_local_paths :=
                      AList.update p (staged_entry x nm is_tmp bytes w) (added_local_paths a) \<rparr>,
                 staged_world x bytes w))"
proof -
  have 1: "map_of (files (write_file (tmp_name x (staging_dir x) (tmp_counter w)) []
                     (w\<lparr> tmp_counter := Suc (tmp_counter w) \<rparr>))) p = Some bytes"
    using assms(2,3) by (simp add: write_file_def update_conv')
  have 2: "(case Some (md5_b64 x bytes) of None \<Rightarrow> md5_b64 x bytes
            | Some d \<Rightarrow> if d = [] then md5_b64 x bytes else d) = md5_b64 x bytes"
    by simp
  show ?thesis
    using assms(1,2,4) 1
    by (simp add: add_file_def ensure_can_add_def isfile_def md5_file_b64_def add_local_file_def
        Let_def staged_entry_def staged_world_def add_file_key_def split: sum.splits)
qed

lemma update_fresh: "map_of al k = None \<Longrightarrow> AList.update k v al = al @ [(k, v)]"
  by (induction al) (auto split: if_splits)

lemma add_file_fresh:
  assumes "\<not> final a" and "map_of (files w) p = Some bytes"
      and "tmp_name x (staging_dir x) (tmp_counter w) \<noteq> p" and "nm \<noteq> []"
      and "map_of (entries (manifest a)) (add_file_key x nm is_tmp bytes) = None"
  shows "add_file x p (Some nm) is_tmp a w =
           (Inr (staged_entry x nm is_tmp bytes w),
            a\<lparr> manifest := \<lparr> entries = entries (manifest a)
                               @ [(add_file_key x nm is_tmp bytes, staged_entry x nm is_tmp bytes w)] \<rparr>,
               added_local_paths :=
                 AList.update p (staged_entry x nm is_tmp bytes w) (added_local_paths a) \<rparr>,
            staged_world x bytes w)"
proof -
  have "add_entry (manifest a) (staged_entry x nm is_tmp bytes w) =
          Inr \<lparr> entries = entries (manifest a)
                  @ [(add_file_key x nm is_tmp bytes, staged_entry x nm is_tmp bytes w)] \<rparr>"
    using assms(5) by (simp add: add_entry_def staged_entry_def update_fresh)
  then show ?thesis
    by (simp add: add_file_unfold [OF assms(1-4)])
qed

lemma add_file_again:
  assumes "\<not> final a" and "map_of (files w) p = Some bytes"
      and "tmp_name x (staging_dir x) (tmp_counter w) \<noteq> p" and "nm \<noteq> []"
      and "map_of (entries (manifest a)) (add_file_key x nm is_tmp bytes) = Some old"
      and "digest old = md5_b64 x bytes"
  shows "add_file x p (Some nm) is_tmp a w =
           (Inr (staged_entry x nm is_tmp bytes w),
            a\<lparr> added_local_paths :=
                 AList.update p (staged_entry x nm is_tmp bytes w) (added_local_paths a) \<rparr>,
            staged_world x bytes w)"
proof -
  have "add_entry (manifest a) (staged_entry x nm is_tmp bytes w) = Inr (manifest a)"
    using assms(5,6) by (simp add: add_entry_def staged_entry_def)
  then show ?thesis
    by (simp add: add_file_unfold [OF assms(1-4)])
qed

lemma add_file_each_again:
  assumes "\<not> final a" and "\<forall>p \<in> set ps. map_of (files w) p = Some bytes"
      and "\<forall>n. tmp_name x (staging_dir x) n \<notin> set ps" and "nm \<noteq> []"
      and "map_of (entries (manifest a)) (add_file_key x nm is_tmp bytes) = Some old"
      and "digest old = md5_b64 x bytes"
  shows "\<exists>an wn. add_file_each x ps (Some nm) is_tmp a w = (Inr (), an, wn) \<and>
                 manifest an = manifest a"
  using assms(1,2,3,5)
proof (induction ps arbitrary: a w)
  case Nil
  then show ?case by simp
next
  case (Cons p ps)
  let ?e = "staged_entry x nm is_tmp bytes w"
  let ?a1 = "a\<lparr> added_local_paths := AList.update p ?e (added_local_paths a) \<rparr>"
  let ?w1 = "staged_world x bytes w"
  have ne: "tmp_name x (staging_dir x) (tmp_counter w) \<noteq> p"
    using Cons.prems(3) by (metis list.set_intros(1))
  have pb: "map_of (files w) p = Some bytes"
    using Cons.prems(2) by simp
  have step: "add_file x p (Some nm) is_tmp a w = (Inr ?e, ?a1, ?w1)"
    by (rule add_file_again [OF Cons.prems(1) pb ne assms(4) Cons.prems(4) assms(6)])
  have f: "\<forall>q \<in> set ps. map_of (files ?w1) q = Some bytes"
  proof
    fix q assume q: "q \<in> set ps"
    then have "q \<noteq> tmp_name x (staging_dir x) (tmp_counter w)"
      using Cons.prems(3) by (metis list.set_intros(2))
    then show "map_of (files ?w1) q = Some bytes"
      using Cons.prems(2) q by (simp add: staged_world_files)
  qed
  have t: "\<forall>n. tmp_name x (staging_dir x) n \<notin> set ps"
    using Cons.prems(3) by simp
  have nf: "\<not> final ?a1" using Cons.prems(1) by simp
  have k: "map_of (entries (manifest ?a1)) (add_file_key x nm is_tmp bytes) = Some old"
    using Cons.prems(4) by simp
  from Cons.IH [OF nf f t k] obtain an wn where
    r: "add_file_each x ps (Some nm) is_tmp ?a1 ?w1 = (Inr (), an, wn)" "manifest an = manifest ?a1"
    by blast
  then show ?case
    using step by simp
qed

text \<open>
  Claim C4. On an artifact that is not finalized, take any sequence of \<open>add_file\<close>
  calls with one name whose files all hold the same bytes (the operating system never
  hands out one of these paths as a temporary name), the name being new to the manifest.
  Every call returns normally. The first call appends exactly one entry, under that name
  and with the hash of the bytes as its digest; after every later call the manifest is
  what it was after the first.
\<close>


theorem add_file_idempotent:
  assumes "\<not> final a"
      and "\<forall>p \<in> set (p0 # ps). map_of (files w) p = Some bytes"
      and "\<forall>n. tmp_name x (staging_dir x) n \<notin> set (p0 # ps)"
      and "nm \<noteq> []"
      and "map_of (entries (manifest a)) (add_file_key x nm is_tmp bytes) = None"
  shows "\<exists>e a1 w1 an wn.
           add_file x p0 (Some nm) is_tmp a w = (Inr e, a1, w1) \<and>
           path e = add_file_key x nm is_tmp bytes \<and>
           digest e = md5_b64 x bytes \<and>
           entries (manifest a1) = entries (manifest a) @ [(add_file_key x nm is_tmp bytes, e)] \<and>
           add_file_each x ps (Some nm) is_tmp a1 w1 = (Inr (), an, wn) \<and>
           manifest an = manifest a1"
proof -
  let ?k = "add_file_key x nm is_tmp bytes"
  let ?e = "staged_entry x nm is_tmp bytes w"
  let ?a1 = "a\<lparr> manifest := \<lparr> entries = entries (manifest a) @ [(?k, ?e)] \<rparr>,
                 added_local_paths := AList.update p0 ?e (added_local_paths a) \<rparr>"
  let ?w1 = "staged_world x bytes w"
  have ne: "tmp_name x (staging_dir x) (tmp_counter w) \<noteq> p0"
    using assms(3) by (metis list.set_intros(1))
  have p0: "map_of (files w) p0 = Some bytes"
    using assms(2) by simp
  have first: "add_file x p0 (Some nm) is_tmp a w = (Inr ?e, ?a1, ?w1)"
    by (rule add_file_fresh [OF assms(1) p0 ne assms(4,5)])
  have f: "\<forall>q \<in> set ps. map_of (files ?w1) q = Some bytes"
  proof
    fix q assume q: "q \<in> set ps"
    then have "q \<noteq> tmp_name x (staging_dir x) (tmp_counter w)"
      using assms(3) by (metis list.set_intros(2))
    then show "map_of (files ?w1) q = Some bytes"
      using assms(2) q by (simp add: staged_world_files)
  qed
  have t: "\<forall>n. tmp_name x (staging_dir x) n \<notin> set ps"
    using assms(3) by simp
  have nf: "\<not> final ?a1" using assms(1) by simp
  have k: "map_of (entries (manifest ?a1)) ?k = Some ?e"
    using assms(5) by (simp add: map_add_def)
  have d: "digest ?e = md5_b64 x bytes"
    by (simp add: staged_entry_def)
  from add_file_each_again [OF nf f t assms(4) k d] obtain an wn where
    "add_file_each x ps (Some nm) is_tmp ?a1 ?w1 = (Inr (), an, wn)" "manifest an = manifest ?a1"
    by blast
  with first d show ?thesis
    by (auto simp: staged_entry_def)
qed

theorem add_file_idempotent_witness:
  "fst (add_file_each ex_env [''/data/a.txt'', ''/data/b.txt''] (Some ''data.txt'') False
          ex_draft ex_world) = Inr () \<and>
   map (\<lambda>(k, e). (k, path e, digest e))
     (entries (manifest (fst (snd (add_file_each ex_env [''/data/a.txt'', ''/data/b.txt'']
                                     (Some ''data.txt'') False ex_draft ex_world))))) =
     [(''data.txt'', ''data.txt'', ''md5-hello'')]"
proof -
  have nf: "\<not> final ex_draft"
    by (simp add: ex_draft_def)
  have fl: "\<forall>p \<in> set [''/data/a.txt'', ''/data/b.txt'']. map_of (files ex_world) p = Some ''hello''"
    by (simp add: ex_world_def)
  have tn: "\<forall>n. tmp_name ex_env (staging_dir ex_env) n \<notin> set [''/data/a.txt'', ''/data/b.txt'']"
    by (simp add: ex_env_def)
  have ne: "''data.txt'' \<noteq> []"
    by simp
  have k: "add_file_key ex_env ''data.txt'' False ''hello'' = ''data.txt''"
    by (simp add: add_file_key_def ex_env_def lstrip_slash_def)
  have fr: "map_of (entries (manifest ex_draft)) (add_file_key ex_env ''data.txt'' False ''hello'') = None"
    by (simp add: ex_draft_def)
  have md: "md5_b64 ex_env ''hello'' = ''md5-hello''"
    by (simp add: ex_env_def)
  from add_file_idempotent [OF nf fl tn ne fr] obtain e a1 w1 an wn where
    r: "add_file ex_env ''/data/a.txt'' (Some ''data.txt'') False ex_draft ex_world = (Inr e, a1, w1)"
       "path e = ''data.txt''" "digest e = ''md5-hello''"
       "entries (manifest a1) = entries (manifest ex_draft) @ [(''data.txt'', e)]"
       "add_file_each ex_env [''/data/b.txt''] (Some ''data.txt'') False a1 w1 = (Inr (), an, wn)"
       "manifest an = manifest a1"
    unfolding k md by blast
  have "add_file_each ex_env [''/data/a.txt'', ''/data/b.txt''] (Some ''data.txt'') False
          ex_draft ex_world = (Inr (), an, wn)"
    using r(1,5) by simp
  moreover have "entries (manifest an) = [(''data.txt'', e)]"
    using r(4,6) by (simp add: ex_draft_def)
  ultimately show ?thesis
    using r(2,3) by simp
qed

section \<open>Verifying a directory\<close>

lemma get_path_logged:
  assumes "state a \<noteq> PENDING"
  shows "(\<exists>e. get_path x a nm = Inr e) \<or>
         get_path x a nm = Inl (KeyError (''Path not contained in artifact: '' @ LogicalPath x nm))"
  using assms by (auto simp: get_path_def Let_def split: option.splits)

lemma tracked_cases:
  assumes "state a \<noteq> PENDING"
  shows "tracked x a rel \<Longrightarrow> \<exists>e. get_path x a rel = Inr e"
    and "\<not> tracked x a rel \<Longrightarrow>
         get_path x a rel = Inl (KeyError (''Path not contained in artifact: '' @ LogicalPath x rel))"
  using get_path_logged [OF assms, of x rel] by (auto simp: tracked_def split: sum.splits)

lemma get_obj_entry_loop_None:
  "get_obj_entry_loop ss m nm = None \<longleftrightarrow> (\<forall>s \<in> set ss. map_of (entries m) (s nm) = None)"
  by (induction ss) (auto split: option.splits)

lemma get_path_has_entry:
  assumes "state a \<noteq> PENDING"
  shows "has_entry x a rel \<Longrightarrow> \<exists>e. get_path x a rel = Inr e"
    and "\<not> has_entry x a rel \<Longrightarrow>
         get_path x a rel = Inl (KeyError (''Path not contained in artifact: '' @ LogicalPath x rel))"
proof -
  have k: "\<And>k. k \<in> set (dict_keys (entries (manifest a))) \<longleftrightarrow>
                map_of (entries (manifest a)) k \<noteq> None"
    by (simp add: dict_keys_def map_of_eq_None_iff)
  have h: "has_entry x a rel \<longleftrightarrow>
             map_of (entries (manifest a)) (LogicalPath x rel) \<noteq> None \<or>
             get_obj_entry_loop (with_suffixes x) (manifest a) (LogicalPath x rel) \<noteq> None"
    unfolding has_entry_def entry_names_def get_obj_entry_loop_None k
    by (auto simp: list_ex_iff)
  show "has_entry x a rel \<Longrightarrow> \<exists>e. get_path x a rel = Inr e"
    using assms h
    by (auto simp: get_path_def get_obj_entry_def Let_def split: option.splits)
  show "\<not> has_entry x a rel \<Longrightarrow>
         get_path x a rel = Inl (KeyError (''Path not contained in artifact: '' @ LogicalPath x rel))"
    using assms h
    by (auto simp: get_path_def get_obj_entry_def Let_def split: option.splits)
qed

lemma tracked_has_entry:
  assumes "state a \<noteq> PENDING"
  shows "tracked x a rel \<longleftrightarrow> has_entry x a rel"
  using get_path_has_entry [OF assms, of x rel]
  by (cases "has_entry x a rel") (auto simp: tracked_def)

lemma verify_files_find:
  assumes "state a \<noteq> PENDING"
  shows "verify_files x a fs =
           (case find (\<lambda>(full, rel). \<not> has_entry x a rel) fs of
              Some (full, rel) \<Rightarrow>
                Inl (ValueError (''Found file '' @ full @ '' which is not a member of artifact ''
                                 @ name a))
            | None \<Rightarrow> Inr ())"
proof (induction fs)
  case Nil
  then show ?case by simp
next
  case (Cons f fs)
  obtain full rel where f: "f = (full, rel)" by (cases f)
  show ?case
  proof (cases "has_entry x a rel")
    case True
    with get_path_has_entry(1) [OF assms] obtain e where "get_path x a rel = Inr e" by blast
    with True Cons f show ?thesis by simp
  next
    case False
    with get_path_has_entry(2) [OF assms] f show ?thesis by simp
  qed
qed

lemma verify_entries_find:
  "verify_entries x w R es n =
     (case find (\<lambda>e. ref e = None \<and> \<not> entry_matches x w R e) es of
        Some e \<Rightarrow>
          Inl (if map_of (files w) (path_join R (path e)) = None
               then FileNotFoundError (path_join R (path e))
               else ValueError (''Digest mismatch for file: '' @ path e))
      | None \<Rightarrow> Inr (n + length (filter (\<lambda>e. ref e \<noteq> None) es)))"
proof (induction es arbitrary: n)
  case Nil
  then show ?case by simp
next
  case (Cons e es)
  show ?case
  proof (cases "ref e")
    case (Some r)
    with Cons.IH [of "Suc n"] show ?thesis by (simp split: option.splits)
  next
    case None
    show ?thesis
    proof (cases "map_of (files w) (path_join R (path e))")
      case n: None
      with None show ?thesis by (simp add: md5_file_b64_def entry_matches_def)
    next
      case (Some bytes)
      with None Cons.IH [of n] show ?thesis
        by (simp add: md5_file_b64_def entry_matches_def split: option.splits)
    qed
  qed
qed

lemma walk_ex_junk_world: "walk ex_junk_world ''/out'' = [(''/out/junk.txt'', ''junk.txt'')]"
  by (simp add: walk_def ex_junk_world_def dict_keys_def relpath_under_def rstrip_slash_def
      startswith_def List.map_filter_simps)

lemma walk_ex_table_world:
  "walk ex_table_world ''/out'' = [(''/out/t.table.json'', ''t.table.json''), (''/out/t'', ''t'')]"
  by (simp add: walk_def ex_table_world_def dict_keys_def relpath_under_def rstrip_slash_def
      startswith_def List.map_filter_simps)

lemma has_entry_ex:
  "has_entry ex_env ex_committed ''a.txt''"
  "\<not> has_entry ex_env ex_committed ''junk.txt''"
  "has_entry ex_env ex_tabled ''t.table.json''"
  "has_entry ex_env ex_tabled ''t''"
  by (simp_all add: has_entry_def entry_names_def ex_env_def lstrip_slash_def endswith_def
      ex_committed_simps ex_tabled_def dict_keys_def)

text \<open>
  Claim C5, as the code has it. \<open>verify\<close> on a logged artifact first walks the root: at
  the first file, in the order of the walk, that has no manifest entry it raises the
  \<open>ValueError\<close> that names this file. A file has an entry when its normalised relative
  path, or that path with the suffix of one of the classes of the type mapping, is a key
  of the manifest. Only when every file has an entry are the entries checked, in the
  order of the manifest: at the first entry without a reference that does not match the
  root, \<open>verify\<close> raises the file-not-found error of the hashing when the file of the
  entry is missing, and the \<open>ValueError\<close> for a digest mismatch that names the entry's
  path when the hash differs. Otherwise it returns normally and reports the number of
  reference entries, when there is one; reference entries are counted and never checked.
  So \<open>verify\<close> returns normally exactly when every file under the root has an entry and
  every entry without a reference matches the root.
\<close>

theorem verify_outcome:
  assumes "state a \<noteq> PENDING"
  shows "verify x root a w =
           (case find (\<lambda>(full, rel). \<not> has_entry x a rel)
                   (walk w (root_or_default x a True root)) of
              Some (full, rel) \<Rightarrow>
                Inl (ValueError (''Found file '' @ full @ '' which is not a member of artifact ''
                                 @ name a))
            | None \<Rightarrow>
                (case find (\<lambda>e. ref e = None \<and>
                                 \<not> entry_matches x w (root_or_default x a True root) e)
                        (dict_values (entries (manifest a))) of
                   Some e \<Rightarrow>
                     Inl (if map_of (files w) (path_join (root_or_default x a True root) (path e))
                             = None
                          then FileNotFoundError
                                 (path_join (root_or_default x a True root) (path e))
                          else ValueError (''Digest mismatch for file: '' @ path e))
                 | None \<Rightarrow>
                     Inr (let n = length (filter (\<lambda>e. ref e \<noteq> None)
                                           (dict_values (entries (manifest a))))
                          in if n > 0 then Some n else None))) \<and>
         ((\<exists>r. verify x root a w = Inr r) \<longleftrightarrow>
            (\<forall>(full, rel) \<in> set (walk w (root_or_default x a True root)). has_entry x a rel) \<and>
            (\<forall>e \<in> set (dict_values (entries (manifest a))).
               ref e = None \<longrightarrow> entry_matches x w (root_or_default x a True root) e))"
proof -
  define R where "R = root_or_default x a True root"
  define E where "E = dict_values (entries (manifest a))"
  define F where "F = find (\<lambda>(full, rel). \<not> has_entry x a rel) (walk w R)"
  define M where "M = find (\<lambda>e. ref e = None \<and> \<not> entry_matches x w R e) E"
  have v: "verify x root a w =
             (case verify_files x a (walk w R) of
                Inl e \<Rightarrow> Inl e
              | Inr _ \<Rightarrow>
                  (case verify_entries x w R E 0 of
                     Inl e \<Rightarrow> Inl e
                   | Inr n \<Rightarrow> Inr (if n > 0 then Some n else None)))"
    unfolding R_def E_def using assms by (simp add: verify_def Let_def)
  have eq: "verify x root a w =
           (case F of
              Some (full, rel) \<Rightarrow>
                Inl (ValueError (''Found file '' @ full @ '' which is not a member of artifact ''
                                 @ name a))
            | None \<Rightarrow>
                (case M of
                   Some e \<Rightarrow>
                     Inl (if map_of (files w) (path_join R (path e)) = None
                          then FileNotFoundError (path_join R (path e))
                          else ValueError (''Digest mismatch for file: '' @ path e))
                 | None \<Rightarrow>
                     Inr (let n = length (filter (\<lambda>e. ref e \<noteq> None) E)
                          in if n > 0 then Some n else None)))"
    unfolding v verify_files_find [OF assms] verify_entries_find F_def [symmetric] M_def [symmetric]
    by (simp add: Let_def split: option.splits prod.splits)
  have fn: "F = None \<longleftrightarrow> (\<forall>(full, rel) \<in> set (walk w R). has_entry x a rel)"
    unfolding F_def by (auto simp: find_None_iff)
  have mn: "M = None \<longleftrightarrow> (\<forall>e \<in> set E. ref e = None \<longrightarrow> entry_matches x w R e)"
    unfolding M_def by (auto simp: find_None_iff)
  have "(\<exists>r. verify x root a w = Inr r) \<longleftrightarrow> F = None \<and> M = None"
    unfolding eq by (auto split: option.splits prod.splits)
  with fn mn have iff: "(\<exists>r. verify x root a w = Inr r) \<longleftrightarrow>
            (\<forall>(full, rel) \<in> set (walk w R). has_entry x a rel) \<and>
            (\<forall>e \<in> set E. ref e = None \<longrightarrow> entry_matches x w R e)"
    by simp
  from eq iff show ?thesis
    unfolding F_def M_def R_def E_def by simp
qed

theorem verify_outcome_witness:
  "verify ex_env (Some ''/out'') ex_committed ex_clean_world = Inr (Some 1) \<and>
   map_of (files ex_junk_world) ''/out/a.txt'' = None \<and>
   verify ex_env (Some ''/out'') ex_committed ex_junk_world =
     Inl (ValueError ''Found file /out/junk.txt which is not a member of artifact mnist:v0'') \<and>
   ''t'' \<notin> set (dict_keys (entries (manifest ex_tabled))) \<and>
   (''/out/t'', ''t'') \<in> set (walk ex_table_world ''/out'') \<and>
   verify ex_env (Some ''/out'') ex_tabled ex_table_world = Inr None"
proof -
  have s: "state ex_committed \<noteq> PENDING" "state ex_tabled \<noteq> PENDING"
    by (simp_all add: ex_committed_simps ex_tabled_def ex_logged_def)
  have r: "root_or_default ex_env ex_committed True (Some ''/out'') = ''/out''"
    "root_or_default ex_env ex_tabled True (Some ''/out'') = ''/out''"
    by (simp_all add: root_or_default_def)
  have m: "entry_matches ex_env ex_clean_world ''/out'' ex_file_entry"
    "entry_matches ex_env ex_table_world ''/out'' ex_table_entry"
    by (simp_all add: entry_matches_def ex_file_entry_def ex_table_entry_def path_join_def
        startswith_def endswith_def ex_clean_world_def ex_table_world_def ex_env_def)
  have f: "ref ex_file_entry = None" "ref ex_ref_entry \<noteq> None" "ref ex_table_entry = None"
    by (simp_all add: ex_file_entry_def ex_ref_entry_def ex_table_entry_def)
  have e: "dict_values (entries (manifest ex_committed)) = [ex_file_entry, ex_ref_entry]"
    "dict_values (entries (manifest ex_tabled)) = [ex_table_entry]"
    "name ex_committed = ''mnist:v0''"
    by (simp_all add: ex_committed_simps ex_tabled_def dict_values_def)
  have 1: "verify ex_env (Some ''/out'') ex_committed ex_clean_world = Inr (Some 1)"
    using verify_outcome [OF s(1), of ex_env "Some ''/out''" ex_clean_world]
    by (simp add: r walk_ex_clean_world has_entry_ex e m f)
  have 2: "verify ex_env (Some ''/out'') ex_committed ex_junk_world =
     Inl (ValueError ''Found file /out/junk.txt which is not a member of artifact mnist:v0'')"
    using verify_outcome [OF s(1), of ex_env "Some ''/out''" ex_junk_world]
    by (simp add: r walk_ex_junk_world has_entry_ex e)
  have 3: "verify ex_env (Some ''/out'') ex_tabled ex_table_world = Inr None"
    using verify_outcome [OF s(2), of ex_env "Some ''/out''" ex_table_world]
    by (simp add: r walk_ex_table_world has_entry_ex e m f)
  have 4: "map_of (files ex_junk_world) ''/out/a.txt'' = None"
    "''t'' \<notin> set (dict_keys (entries (manifest ex_tabled)))"
    "(''/out/t'', ''t'') \<in> set (walk ex_table_world ''/out'')"
    by (simp_all add: ex_junk_world_def ex_tabled_def dict_keys_def walk_ex_table_world)
  from 1 2 3 4 show ?thesis
    by simp
qed

text \<open>
  The claim as stated allows two failures only. With the committed artifact
  \<open>ex_committed\<close> and a root that holds no file at all, \<open>verify\<close> fails although no
  file is untracked and no hash was computed that could differ: hashing the missing file
  of the entry \<open>a.txt\<close> raises the file-not-found error.
\<close>

theorem verify_missing_file:
  "walk ex_world ''/out'' = [] \<and>
   map_of (files ex_world) ''/out/a.txt'' = None \<and>
   verify ex_env (Some ''/out'') ex_committed ex_world = Inl (FileNotFoundError ''/out/a.txt'')"
  by (simp add: verify_def ex_committed_simps root_or_default_def walk_ex_world_out dict_values_def
      ex_file_entry_def md5_file_b64_def path_join_def startswith_def
      endswith_def out_a_missing Let_def)

section \<open>Checking out\<close>

lemma remove_untracked_filter:
  assumes "state a \<noteq> PENDING"
  shows "remove_untracked x a fs w =
           (Inr (), w\<lparr> files := filter (\<lambda>(k, v). \<forall>rel. (k, rel) \<in> set fs \<longrightarrow> tracked x a rel)
                                     (files w) \<rparr>)"
proof (induction fs arbitrary: w)
  case Nil
  then show ?case by simp
next
  case (Cons f fs)
  obtain full rel where f: "f = (full, rel)" by (cases f)
  show ?case
  proof (cases "tracked x a rel")
    case True
    with tracked_cases(1) [OF assms] obtain e where g: "get_path x a rel = Inr e" by blast
    have "filter (\<lambda>(k, v). \<forall>r. (k, r) \<in> set (f # fs) \<longrightarrow> tracked x a r) (files w) =
          filter (\<lambda>(k, v). \<forall>r. (k, r) \<in> set fs \<longrightarrow> tracked x a r) (files w)"
      using True f by (intro filter_cong) auto
    with g f Cons.IH [of w] show ?thesis by simp
  next
    case False
    with tracked_cases(2) [OF assms] have g: "get_path x a rel =
        Inl (KeyError (''Path not contained in artifact: '' @ LogicalPath x rel))" by blast
    have "filter (\<lambda>(k, v). \<forall>r. (k, r) \<in> set fs \<longrightarrow> tracked x a r) (AList.delete full (files w)) =
          filter (\<lambda>(k, v). \<forall>r. (k, r) \<in> set (f # fs) \<longrightarrow> tracked x a r) (files w)"
      using False f by (auto simp: AList.delete_eq intro!: filter_cong)
    with g f Cons.IH [of "remove_file full w"] show ?thesis
      by (simp add: remove_file_def)
  qed
qed

lemma set_map_filter_iff:
  "y \<in> set (List.map_filter f xs) \<longleftrightarrow> (\<exists>x \<in> set xs. f x = Some y)"
  by (induction xs) (auto simp: List.map_filter_simps split: option.splits)

lemma walk_set:
  "(k, rel) \<in> set (walk w R) \<longleftrightarrow> k \<in> fst ` set (files w) \<and> relpath_under R k = Some rel"
  by (auto simp: walk_def dict_keys_def set_map_filter_iff split: option.splits)

text \<open>
  \<open>checkout\<close> on a logged artifact is \<open>download\<close> into the same root, without
  recursion, run on the file system from which every file under the root that has no
  manifest entry was removed; the files that have an entry and the files outside the root
  are kept as they are.
\<close>


lemma checkout_is_download_after_removal:
  assumes "state a \<noteq> PENDING"
  shows "checkout x dd root a w =
           download x dd (Some (root_or_default x a False root)) False a
             (w\<lparr> files := filter (\<lambda>(full, bytes).
                                    case relpath_under (root_or_default x a False root) full of
                                      None \<Rightarrow> True
                                    | Some rel \<Rightarrow> tracked x a rel)
                                 (files w) \<rparr>)"
proof -
  define R where "R = root_or_default x a False root"
  have "filter (\<lambda>(k, v). \<forall>rel. (k, rel) \<in> set (walk w R) \<longrightarrow> tracked x a rel) (files w) =
        filter (\<lambda>(full, bytes). case relpath_under R full of None \<Rightarrow> True | Some rel \<Rightarrow> tracked x a rel)
          (files w)"
  proof (intro filter_cong refl)
    fix kv assume m: "kv \<in> set (files w)"
    obtain k v where kv: "kv = (k, v)" by (cases kv)
    from m kv have "k \<in> fst ` set (files w)" by force
    then show "(case kv of (k, v) \<Rightarrow> \<forall>rel. (k, rel) \<in> set (walk w R) \<longrightarrow> tracked x a rel) =
               (case kv of (full, bytes) \<Rightarrow>
                  case relpath_under R full of None \<Rightarrow> True | Some rel \<Rightarrow> tracked x a rel)"
      by (simp add: kv walk_set split: option.splits)
  qed
  then show ?thesis
    using assms remove_untracked_filter [OF assms, of x "walk w R" w]
    unfolding R_def by (simp add: checkout_def Let_def)
qed

theorem checkout_is_download_after_removal_witness:
  "checkout ex_env ex_deps (Some ''/out'') ex_sized ex_out_world =
     (Inr ''/out'', ex_sized\<lparr> download_roots := [''/out''] \<rparr>, ex_clean_world)"
proof -
  have s: "state ex_sized \<noteq> PENDING"
    by (simp add: ex_sized_def ex_committed_simps)
  have r: "root_or_default ex_env ex_sized False (Some ''/out'') = ''/out''"
    by (simp add: root_or_default_def)
  have t: "tracked ex_env ex_sized ''a.txt''" "\<not> tracked ex_env ex_sized ''junk.txt''"
    by (simp_all add: tracked_def get_path_sized)
  have rp: "relpath_under ''/out'' ''/out/a.txt'' = Some ''a.txt''"
           "relpath_under ''/out'' ''/out/junk.txt'' = Some ''junk.txt''"
           "relpath_under ''/out'' ''/data/a.txt'' = None"
    by (simp_all add: relpath_under_def rstrip_slash_def startswith_def)
  have w: "ex_out_world\<lparr> files := filter (\<lambda>(full, bytes).
                                    case relpath_under ''/out'' full of
                                      None \<Rightarrow> True
                                    | Some rel \<Rightarrow> tracked ex_env ex_sized rel)
                                 (files ex_out_world) \<rparr> = ex_clean_world"
    by (simp add: ex_out_world_def ex_clean_world_def rp t)
  have m: "manifest ex_sized = \<lparr> entries = [(''a.txt'', ex_file_entry)] \<rparr>"
          "download_roots ex_sized = []"
    by (simp_all add: ex_sized_def ex_committed_def ex_logged_def ex_submitted_def ex_draft_def)
  have z: "entry_size ex_file_entry = Some 5"
    by (simp add: ex_file_entry_def)
  have d: "download ex_env ex_deps (Some ''/out'') False ex_sized ex_clean_world =
             (Inr ''/out'', ex_sized\<lparr> download_roots := [''/out''] \<rparr>, ex_clean_world)"
    by (simp add: download_def s root_or_default_def add_download_root_def Let_def dict_values_def
          dict_keys_def m z ex_env_simps pool_map_one download_file_def get_path_download_roots
          get_path_sized entry_download_ex)
  show ?thesis
    using checkout_is_download_after_removal [OF s, of ex_env ex_deps "Some ''/out''" ex_out_world]
    by (simp only: r w d)
qed

text \<open>
  Claim C6 at a committed artifact one of whose entries has no known size.
  \<open>checkout\<close> removes the file the manifest does not know, and then \<open>download\<close>
  raises \<open>TypeError\<close> while it sums the sizes: nothing is downloaded and no path is
  returned. The \<open>size\<close> property of the same artifact skips the unknown size and
  returns 5.
\<close>


theorem checkout_unknown_size:
  "checkout ex_env ex_deps (Some ''/out'') ex_committed ex_out_world =
     (Inl (TypeError ''unsupported operand type(s) for +: int and NoneType''),
      ex_committed\<lparr> download_roots := [''/out''] \<rparr>,
      ex_clean_world) \<and>
   Artifact_size ex_committed = 5"
proof -
  have r: "remove_untracked ex_env ex_committed (walk ex_out_world ''/out'') ex_out_world =
             (Inr (), ex_clean_world)"
    by (simp add: walk_ex_out_world get_path_ex remove_file_def)
       (simp add: ex_out_world_def ex_clean_world_def AList.delete_eq)
  have s: "sum_sizes (dict_values (entries (manifest ex_committed))) 0 =
             Inl (TypeError ''unsupported operand type(s) for +: int and NoneType'')"
    by (simp add: ex_committed_simps dict_values_def ex_file_entry_def ex_ref_entry_def)
  have d: "download ex_env ex_deps (Some ''/out'') False ex_committed ex_clean_world =
             (Inl (TypeError ''unsupported operand type(s) for +: int and NoneType''),
              ex_committed\<lparr> download_roots := [''/out''] \<rparr>, ex_clean_world)"
    using s
    by (simp add: download_def ex_committed_simps root_or_default_def add_download_root_def Let_def)
       (simp add: ex_env_def ex_committed_def ex_logged_def ex_submitted_def ex_draft_def)
  have z: "Artifact_size ex_committed = 5"
    by (simp add: Artifact_size_def ex_committed_simps dict_values_def ex_file_entry_def
        ex_ref_entry_def)
  show ?thesis
    using r d z by (simp add: checkout_def ex_committed_simps root_or_default_def)
qed

section \<open>Storing a cross-artifact reference\<close>

lemma load_manifest_no_url:
  "load_manifest x None t = Inl (TypeError ''_load_manifest() missing 1 required positional argument: url'')"
  by (simp add: load_manifest_def)

lemma resolve_loop_first:
  "resolve_loop x cache (Some p) None = Some (Inr None) \<or>
   (\<exists>e. resolve_loop x cache (Some p) None = Some (Inl e))"
  by (subst (1 2) resolve_loop.simps)
     (auto simp: load_manifest_no_url split: sum.splits option.splits)

text \<open>
  Whatever the arguments, \<open>store_path\<close> returns no entries: the first pass through
  the loop raises (at the latest in the call of \<open>_load_manifest\<close> without its \<open>url\<close>),
  and without a pass the variables read after the loop are unbound.
\<close>


lemma store_path_never_returns_entries:
  "store_path x cache art p nm checksum max_objects \<noteq> Some (Inr es)"
  using resolve_loop_first [of x cache p]
  by (auto simp: store_path_def)

lemma store_path_raises:
  "\<exists>e. store_path x cache art p nm checksum max_objects = Some (Inl e)"
  using resolve_loop_first [of x cache p]
  by (auto simp: store_path_def)

text \<open>
  Claim C3 at a direct reference to the concrete entry \<open>a.txt\<close> of the committed
  artifact \<open>ex_committed\<close>, which the cache holds: \<open>store_path\<close> raises
  \<open>TypeError\<close> instead of returning the one new entry.
\<close>


theorem store_path_type_error:
  "map_of ex_cache ''QXJ0'' = Some ex_committed \<and>
   get_entry_by_path (manifest ex_committed) ''a.txt'' = Some ex_file_entry \<and>
   ref ex_file_entry = None \<and>
   store_path ex_env ex_cache ex_draft ''wandb-artifact://QXJ0/a.txt'' None True None =
     Some (Inl (TypeError ''_load_manifest() missing 1 required positional argument: url''))"
proof -
  have "resolve_loop ex_env ex_cache (Some ''wandb-artifact://QXJ0/a.txt'') None =
          Some (Inl (TypeError ''_load_manifest() missing 1 required positional argument: url''))"
    by (subst resolve_loop.simps)
       (simp add: ex_env_def ex_scheme_wb ex_host_wb wb_scheme_def from_id_def ex_cache_def
         load_manifest_no_url)
  then show ?thesis
    by (simp add: store_path_def ex_cache_def get_entry_by_path_def ex_committed_simps
        ex_file_entry_def)
qed

end
